theory Spec2Isabelle
  imports Complex_Main "HOL-Library.Sublist"
begin

text \<open>
  RADOX analyses a chest radiograph in four steps: \<open>ImageProcessor\<close> normalizes the upload,
  \<open>PneumoniaDetector\<close> classifies it, the server decides whether a report may be generated,
  and \<open>ReportGenerator\<close> asks a remote model for the report, with a template as fallback.
  This theory embeds these modules of the Node.js server as functions over explicit
  environments (file system, Python bridge, \<open>sharp\<close>, HTTP service, clock) and proves what
  the specification says about them, or shows on a concrete run where the code does otherwise.
\<close>

section \<open>JavaScript values\<close>

text \<open>
  A JavaScript string is a sequence of UTF-16 code units; the model keeps each code unit as
  a natural number. \<open>js\<close> turns an ASCII literal into code units, and the accented letters of
  the Spanish texts are spliced in by their code unit (\<open>0xED\<close> is i-acute, and so on).
\<close>

type_synonym jsstring = "nat list"

definition js :: "string \<Rightarrow> jsstring" where
  "js s = map of_char s"

text \<open>
  A JavaScript number is a double. The finite ones are taken as the reals they denote; NaN and
  the two infinities are values of their own, since \<open>parseFloat\<close> of a missing setting is NaN
  and every comparison with NaN is false.
\<close>

datatype jsnum = Num real | PosInf | NegInf | NaN

text \<open>\<open>a >= b\<close> and \<open>a < b\<close> of JavaScript.\<close>

fun js_ge :: "jsnum \<Rightarrow> jsnum \<Rightarrow> bool" where
  "js_ge NaN b = False"
| "js_ge a NaN = False"
| "js_ge PosInf b = True"
| "js_ge a NegInf = True"
| "js_ge (Num a) (Num b) = (b \<le> a)"
| "js_ge (Num a) PosInf = False"
| "js_ge NegInf b = False"

fun js_lt :: "jsnum \<Rightarrow> jsnum \<Rightarrow> bool" where
  "js_lt NaN b = False"
| "js_lt a NaN = False"
| "js_lt a b = (\<not> js_ge a b)"

text \<open>
  \<open>Math.round(x * 100)\<close>: the product, then rounding half up. Both are taken on the reals;
  the rounding of the product to a double is not modelled, so at a confidence whose percentage
  lies next to a half (0.575) the code may give the neighbouring integer. No statement below
  depends on the digits of a percentage.
\<close>

fun times100 :: "jsnum \<Rightarrow> jsnum" where
  "times100 (Num r) = Num (r * 100)"
| "times100 x = x"

fun Math_round :: "jsnum \<Rightarrow> jsnum" where
  "Math_round (Num r) = Num (of_int \<lfloor>r + 1 / 2\<rfloor>)"
| "Math_round x = x"

text \<open>
  The text of a number inside a template literal. The sources render results of
  \<open>Math.round\<close> only, so a finite number is rendered by the decimal digits of its integer part
  (the exponent notation JavaScript uses from \<open>1e21\<close> on is not modelled).
\<close>

fun digits :: "nat \<Rightarrow> jsstring" where
  "digits n = (if n < 10 then [48 + n] else digits (n div 10) @ [48 + n mod 10])"

declare digits.simps [simp del]

definition int_toString :: "int \<Rightarrow> jsstring" where
  "int_toString i = (if i < 0 then 45 # digits (nat (- i)) else digits (nat i))"

fun num_toString :: "jsnum \<Rightarrow> jsstring" where
  "num_toString (Num r) = int_toString \<lfloor>r\<rfloor>"
| "num_toString PosInf = js ''Infinity''"
| "num_toString NegInf = js ''-Infinity''"
| "num_toString NaN = js ''NaN''"

text \<open>
  \<open>String.prototype.toLowerCase\<close> on Basic Latin and Latin-1: the capital letters A to Z and
  the accented capitals \<open>0xC0\<close> to \<open>0xDE\<close> (the multiplication sign \<open>0xD7\<close> is not a letter)
  move up by 32. Code units above \<open>0xFF\<close> stay as they are: the texts of this program are
  Spanish, and the case table beyond Latin-1 is not part of the model.
\<close>

definition lower_unit :: "nat \<Rightarrow> nat" where
  "lower_unit c =
     (if (65 \<le> c \<and> c \<le> 90) \<or> (192 \<le> c \<and> c \<le> 222 \<and> c \<noteq> 215) then c + 32 else c)"

definition toLowerCase :: "jsstring \<Rightarrow> jsstring" where
  "toLowerCase s = map lower_unit s"

text \<open>\<open>String.prototype.trim\<close>: white space and line terminators are cut from both ends.\<close>

definition is_space :: "nat \<Rightarrow> bool" where
  "is_space c \<longleftrightarrow>
     c \<in> {9, 10, 11, 12, 13, 32, 160, 5760, 8232, 8233, 8239, 8287, 12288, 65279}
     \<or> (8192 \<le> c \<and> c \<le> 8202)"

definition trim :: "jsstring \<Rightarrow> jsstring" where
  "trim s = rev (dropWhile is_space (rev (dropWhile is_space s)))"

text \<open>A string is truthy when it is not empty; an absent property is \<open>None\<close>.\<close>

fun truthy :: "jsstring option \<Rightarrow> bool" where
  "truthy None = False"
| "truthy (Some s) = (s \<noteq> [])"

text \<open>What a \<open>throw\<close> or a rejected promise carries.\<close>

datatype thrown =
    Undefined
  | Error jsstring
  | TypeError jsstring
  | SyntaxError jsstring
  | AxiosError "nat option" jsstring

text \<open>
  A \<open>Date\<close> taken from the clock is used through its renderings only, so a reading of the
  clock is the three texts it renders to (all in the locale \<open>es-ES\<close>).
\<close>

record jsdate =
  toLocaleDateString :: jsstring
  toLocaleString :: jsstring
  toISOString :: jsstring

section \<open>The prediction and the decision gate (server.js)\<close>

record model_info =
  status :: jsstring
  architecture :: jsstring
  device :: jsstring
  num_classes :: nat

record prediction =
  label :: jsstring
  confidence :: jsnum
  rawPredictions :: "real list"
  classProbabilities :: "(jsstring \<times> jsnum) list"
  probNeumonia :: jsnum
  hasNeumonia :: bool
  heatmap :: "real list list option"
  caseId :: jsstring
  modelInfo :: model_info

definition Neumonia :: jsstring where
  "Neumonia = js ''Neumon'' @ [0xED] @ js ''a''"

text \<open>
  The field \<open>puedeGenerarInforme\<close> of the reply of \<open>POST /api/analyze\<close>. The threshold is
  \<open>parseFloat(process.env.CONFIDENCE_THRESHOLD)\<close>, a setting read at each request.
\<close>

definition puedeGenerarInforme :: "prediction \<Rightarrow> jsnum \<Rightarrow> bool" where
  "puedeGenerarInforme p threshold \<longleftrightarrow> label p = Neumonia \<and> js_ge (confidence p) threshold"

definition tieneNeumonia :: "prediction \<Rightarrow> bool" where
  "tieneNeumonia p \<longleftrightarrow> label p = Neumonia"

section \<open>PneumoniaDetector (src/services/pneumoniaDetector.js)\<close>

text \<open>
  \<open>useMockModel\<close> is not set by the constructor: it is \<open>None\<close> (undefined) until
  \<open>initialize\<close> has run.
\<close>

record detector =
  isInitialized :: bool
  useMockModel :: "bool option"
  modelPath :: jsstring
  pythonBridgePath :: jsstring

definition new_PneumoniaDetector :: "jsstring option \<Rightarrow> detector" where
  "new_PneumoniaDetector CNN_MODEL_PATH =
     \<lparr> isInitialized = False,
       useMockModel = None,
       modelPath = (if truthy CNN_MODEL_PATH then the CNN_MODEL_PATH
                    else js ''./data/models/pneumonia_resnet50.h5''),
       pythonBridgePath = js ''./scripts/python_cnn_bridge.py'' \<rparr>"

text \<open>
  The Python process is outside the program. What it does for a given argument list is an
  answer of the environment: the process cannot be started, it exits with a code other than 0,
  its output is not JSON, or its output parses, to \<open>null\<close> or to a value whose \<open>success\<close>
  property is truthy or not.
\<close>

datatype bridge_reply =
    SpawnError jsstring
  | ExitCode jsstring
  | InvalidJSON jsstring
  | JsonNull
  | Json bool

record bridge_env =
  pathExists :: "jsstring \<Rightarrow> bool"
  python :: "jsstring list \<Rightarrow> bridge_reply"

text \<open>
  \<open>callPythonBridge\<close> returns the argument list it spawned Python with, beside the result,
  so that a run records every invocation of the bridge.
\<close>

definition bridge_args :: "detector \<Rightarrow> jsstring \<Rightarrow> jsstring option \<Rightarrow> jsstring list" where
  "bridge_args d action imagePath =
     [pythonBridgePath d, js ''--action'', action]
     @ (if truthy imagePath then [js ''--image'', the imagePath] else [])
     @ (if modelPath d \<noteq> [] then [js ''--model-path'', modelPath d] else [])"

definition callPythonBridge ::
  "('a bridge_env_scheme) \<Rightarrow> detector \<Rightarrow> jsstring \<Rightarrow> jsstring option \<Rightarrow> (thrown + bool) \<times> jsstring list list" where
  "callPythonBridge env d action imagePath =
     (let args = bridge_args d action imagePath in
      (case python env args of
         SpawnError m \<Rightarrow> Inl (Error m)
       | ExitCode stderr \<Rightarrow> Inl (Error (js ''Python failed: '' @ stderr))
       | InvalidJSON m \<Rightarrow> Inl (SyntaxError m)
       | JsonNull \<Rightarrow> Inl (TypeError (js ''Cannot read properties of null (reading 'success')''))
       | Json success \<Rightarrow> Inr success,
       [args]))"

text \<open>
  The body of the \<open>try\<close> of \<open>initialize\<close>: the detector it leaves, or what it throws. The read
  of \<open>initResult.success\<close> is folded into \<open>callPythonBridge\<close>: on \<open>null\<close> it is the read that
  throws.
\<close>

definition initialize_try ::
  "('a bridge_env_scheme) \<Rightarrow> detector \<Rightarrow> (thrown + detector) \<times> jsstring list list" where
  "initialize_try env d =
     (if \<not> pathExists env (pythonBridgePath d)
      then (Inl (Error (js ''Script puente no encontrado en: '' @ pythonBridgePath d)), [])
      else (case callPythonBridge env d (js ''init'') None of
              (Inl e, spawned) \<Rightarrow> (Inl e, spawned)
            | (Inr success, spawned) \<Rightarrow>
                (Inr (d\<lparr> useMockModel := Some (\<not> success), isInitialized := True \<rparr>), spawned)))"

text \<open>
  \<open>initialize\<close>: the \<open>catch\<close> turns every failure of the body into mock mode. The result is
  what the caller's \<open>await\<close> sees (\<open>Inr ()\<close> when the promise resolves), the detector after the
  call, and the bridge invocations made.
\<close>

definition initialize ::
  "('a bridge_env_scheme) \<Rightarrow> detector \<Rightarrow> (thrown + unit) \<times> detector \<times> jsstring list list" where
  "initialize env d =
     (case initialize_try env d of
        (Inr d', spawned) \<Rightarrow> (Inr (), d', spawned)
      | (Inl e, spawned) \<Rightarrow> (Inr (), d\<lparr> useMockModel := Some True, isInitialized := True \<rparr>, spawned))"

definition hard_coded_prediction :: prediction where
  "hard_coded_prediction =
     \<lparr> label = Neumonia,
       confidence = Num 0.85,
       rawPredictions = [1.2, - 0.5],
       classProbabilities = [(Neumonia, Num 0.85), (js ''Normal'', Num 0.15)],
       probNeumonia = Num 0.85,
       hasNeumonia = True,
       heatmap = None,
       caseId = js ''case_mock'',
       modelInfo = \<lparr> status = js ''mock'', architecture = js ''mock'', device = js ''cpu'',
                     num_classes = 2 \<rparr> \<rparr>"

text \<open>
  \<open>predict\<close>: the result, and the bridge invocations made. In mock mode it calls
  \<open>this.mockPredict(imagePath)\<close>. The class defines \<open>constructor\<close>, \<open>initialize\<close>,
  \<open>callPythonBridge\<close>, \<open>predict\<close> and \<open>pythonPredict\<close> and nothing else (a comment
  stands where \<open>mockPredict\<close> would be), so the property is undefined and the call throws a
  TypeError, which rejects the promise of the async method. Otherwise the call of
  \<open>pythonPredict\<close> is commented out and a fixed prediction is returned.
\<close>

definition predict ::
  "('a bridge_env_scheme) \<Rightarrow> detector \<Rightarrow> jsstring \<Rightarrow> (thrown + prediction) \<times> jsstring list list" where
  "predict env d imagePath =
     (if \<not> isInitialized d
      then (Inl (Error (js ''El detector no est'' @ [0xE1] @ js '' inicializado'')), [])
      else if useMockModel d = Some True
      then (Inl (TypeError (js ''this.mockPredict is not a function'')), [])
      else (Inr hard_coded_prediction, []))"

section \<open>ImageProcessor (src/utils/imageProcessor.js)\<close>

text \<open>
  The environment of the image processor: the file system, the functions of Node's
  \<open>path\<close> module, the clock, and the \<open>sharp\<close> library. A \<open>sharp\<close> pipeline is the record
  of the operations the code chains; whether it can read its input and write the output is
  the library's answer (\<open>None\<close> when \<open>toFile\<close> resolves, the error's message otherwise).
  When \<open>toFile\<close> resolves, it does so with an \<open>info\<close> object, whose property \<open>channels\<close>
  is the number of channels of the file written (\<open>written_channels\<close>); the code does not
  read it. \<open>toColourspace_op\<close> is the colourspace the chain asks for with \<open>toColourspace\<close>,
  \<open>None\<close> when the chain has no such call.
\<close>

record sharp_job =
  src_file :: jsstring
  resize_width :: int
  resize_height :: int
  fit :: jsstring
  position :: jsstring
  grayscale_op :: bool
  normalize_op :: bool
  toColourspace_op :: "jsstring option"
  jpeg_quality :: nat
  dest_file :: jsstring

record metadata =
  format :: jsstring
  width :: nat
  height :: nat
  channels :: nat

record image_env = bridge_env +
  extname :: "jsstring \<Rightarrow> jsstring"
  dirname :: "jsstring \<Rightarrow> jsstring"
  basename :: "jsstring \<Rightarrow> jsstring \<Rightarrow> jsstring"
  join :: "jsstring \<Rightarrow> jsstring \<Rightarrow> jsstring"
  Date_now :: nat
  sharp_toFile :: "sharp_job \<Rightarrow> jsstring option"
  written_channels :: "sharp_job \<Rightarrow> nat"
  sharp_metadata :: "jsstring \<Rightarrow> jsstring + metadata"
  stat_size :: "jsstring \<Rightarrow> jsstring + nat"
  fs_remove :: "jsstring \<Rightarrow> jsstring option"

record image_processor =
  supportedFormats :: "jsstring list"
  targetSize :: int
  outputFormat :: jsstring
  quality :: nat

text \<open>
  The constructor. \<open>IMAGE_SIZE\<close> is \<open>parseInt(process.env.IMAGE_SIZE)\<close>, \<open>None\<close> when that
  is NaN; NaN and 0 are falsy and give 224.
\<close>

definition new_ImageProcessor :: "int option \<Rightarrow> image_processor" where
  "new_ImageProcessor IMAGE_SIZE =
     \<lparr> supportedFormats = [js ''.jpg'', js ''.jpeg'', js ''.png'', js ''.dcm'', js ''.dicom''],
       targetSize = (case IMAGE_SIZE of None \<Rightarrow> 224 | Some n \<Rightarrow> if n = 0 then 224 else n),
       outputFormat = js ''jpeg'',
       quality = 90 \<rparr>"

text \<open>\<open>error.message\<close>\<close>

fun message :: "thrown \<Rightarrow> jsstring" where
  "message (Error m) = m"
| "message (TypeError m) = m"
| "message (SyntaxError m) = m"
| "message (AxiosError st m) = m"
| "message Undefined = []"

definition generateOutputPath :: "('a image_env_scheme) \<Rightarrow> image_processor \<Rightarrow> jsstring \<Rightarrow> jsstring" where
  "generateOutputPath env ip inputPath =
     (let dir = dirname env inputPath;
          name = basename env inputPath (extname env inputPath);
          timestamp = Date_now env
      in join env dir
           (name @ js ''_processed_'' @ digits timestamp @ js ''.'' @ outputFormat ip))"

text \<open>
  The pipeline of \<open>processStandardImage\<close>: resize to the target square (fit \<open>cover\<close>, centred),
  grayscale, normalize, JPEG at the configured quality, written to \<open>outputPath\<close>. The chain
  calls \<open>grayscale()\<close> and leaves the colourspace of the output to the library.
\<close>

definition standard_pipeline :: "image_processor \<Rightarrow> jsstring \<Rightarrow> jsstring \<Rightarrow> sharp_job" where
  "standard_pipeline ip inputPath outputPath =
     \<lparr> src_file = inputPath,
       resize_width = targetSize ip, resize_height = targetSize ip,
       fit = js ''cover'', position = js ''center'',
       grayscale_op = True, normalize_op = True,
       toColourspace_op = None,
       jpeg_quality = quality ip,
       dest_file = outputPath \<rparr>"

text \<open>
  Each processing function returns the path of the processed image or what it throws, and the
  \<open>sharp\<close> pipelines it ran. \<open>processDicomImage\<close> has no decoder of its own: it hands the
  file to \<open>processStandardImage\<close> and wraps the error when that throws.
\<close>

definition processStandardImage ::
  "('a image_env_scheme) \<Rightarrow> image_processor \<Rightarrow> jsstring \<Rightarrow> (thrown + jsstring) \<times> sharp_job list" where
  "processStandardImage env ip inputPath =
     (let outputPath = generateOutputPath env ip inputPath;
          job = standard_pipeline ip inputPath outputPath
      in (case sharp_toFile env job of
            None \<Rightarrow> Inr outputPath
          | Some m \<Rightarrow>
              Inl (Error (js ''Error al procesar imagen est'' @ [0xE1] @ js ''ndar: '' @ m)),
          [job]))"

definition processDicomImage ::
  "('a image_env_scheme) \<Rightarrow> image_processor \<Rightarrow> jsstring \<Rightarrow> (thrown + jsstring) \<times> sharp_job list" where
  "processDicomImage env ip inputPath =
     (case processStandardImage env ip inputPath of
        (Inr out, jobs) \<Rightarrow> (Inr out, jobs)
      | (Inl e, jobs) \<Rightarrow> (Inl (Error (js ''Error al procesar imagen DICOM: '' @ message e)), jobs))"

definition processImage ::
  "('a image_env_scheme) \<Rightarrow> image_processor \<Rightarrow> jsstring \<Rightarrow> (thrown + jsstring) \<times> sharp_job list" where
  "processImage env ip inputPath =
     (if \<not> pathExists env inputPath
      then (Inl (Error (js ''Archivo no encontrado: '' @ inputPath)), [])
      else
        (let fileExtension = toLowerCase (extname env inputPath) in
         if fileExtension \<notin> set (supportedFormats ip)
         then (Inl (Error (js ''Formato de archivo no soportado: '' @ fileExtension)), [])
         else if fileExtension = js ''.dcm'' \<or> fileExtension = js ''.dicom''
         then processDicomImage env ip inputPath
         else processStandardImage env ip inputPath))"

text \<open>
  \<open>validateImage\<close> returns a report and never throws. The report of the \<open>catch\<close> has the
  fields \<open>isValid\<close> and \<open>errors\<close> only. \<open>MAX_FILE_SIZE\<close> is
  \<open>parseInt(process.env.MAX_FILE_SIZE || 10485760)\<close>.
\<close>

definition too_small_message :: jsstring where
  "too_small_message =
     js ''Imagen demasiado peque'' @ [0xF1] @ js ''a (m'' @ [0xED] @ js ''nimo 100x100)''"

record validation =
  isValid :: bool
  v_format :: "jsstring option"
  v_width :: "nat option"
  v_height :: "nat option"
  v_channels :: "nat option"
  v_size :: "nat option"
  errors :: "jsstring list"

definition validateImage :: "('a image_env_scheme) \<Rightarrow> jsnum \<Rightarrow> jsstring \<Rightarrow> validation" where
  "validateImage env MAX_FILE_SIZE imagePath =
     (let failed = (\<lambda>m. \<lparr> isValid = False, v_format = None, v_width = None, v_height = None,
                           v_channels = None, v_size = None,
                           errors = [js ''Error al validar imagen: '' @ m] \<rparr>)
      in case sharp_metadata env imagePath of
           Inl m \<Rightarrow> failed m
         | Inr md \<Rightarrow>
             (case stat_size env imagePath of
                Inl m \<Rightarrow> failed m
              | Inr sz \<Rightarrow>
                  (let errs =
                         (if width md < 100 \<or> height md < 100
                          then [too_small_message]
                          else [])
                       @ (if js_lt MAX_FILE_SIZE (Num (real sz))
                          then [js ''Archivo demasiado grande''] else [])
                       @ (if format md \<notin> {js ''jpeg'', js ''jpg'', js ''png''}
                          then [js ''Formato de imagen no est'' @ [0xE1] @ js ''ndar''] else [])
                   in \<lparr> isValid = (length errs = 0),
                        v_format = Some (format md), v_width = Some (width md),
                        v_height = Some (height md), v_channels = Some (channels md),
                        v_size = Some sz, errors = errs \<rparr>)))"

section \<open>ReportGenerator (src/services/reportGenerator.js)\<close>

record generator =
  apiToken :: "jsstring option"
  modelName :: jsstring
  apiUrl :: jsstring
  isInitialized_rg :: bool
  maxRetries :: nat
  retryDelay :: nat

text \<open>
  The constructor, from the settings \<open>HUGGINGFACE_TOKEN\<close> and \<open>MEDGEMMA_MODEL\<close> of the
  process environment (\<open>None\<close> when a setting is absent).
\<close>

definition new_ReportGenerator :: "jsstring option \<Rightarrow> jsstring option \<Rightarrow> generator" where
  "new_ReportGenerator HUGGINGFACE_TOKEN MEDGEMMA_MODEL =
     (let name = (if truthy MEDGEMMA_MODEL then the MEDGEMMA_MODEL else js ''google/medgemma-7b'')
      in \<lparr> apiToken = HUGGINGFACE_TOKEN,
           modelName = name,
           apiUrl = js ''https://api-inference.huggingface.co/models/'' @ name,
           isInitialized_rg = False,
           maxRetries = 3,
           retryDelay = 2000 \<rparr>)"

text \<open>The two tests the methods repeat: on the model's name and on the token.\<close>

definition is_medgemma_4b_it :: "generator \<Rightarrow> bool" where
  "is_medgemma_4b_it g \<longleftrightarrow> toLowerCase (modelName g) = js ''google/medgemma-4b-it''"

definition no_valid_token :: "generator \<Rightarrow> bool" where
  "no_valid_token g \<longleftrightarrow>
     \<not> truthy (apiToken g) \<or> apiToken g = Some (js ''your_hf_token_here'')
     \<or> apiToken g = Some (js ''your2_hf_token_here'')"

record analysisData =
  diagnostico :: jsstring
  confianza :: jsnum
  imagePath :: "jsstring option"
  imagenPath :: "jsstring option"
  image_path :: "jsstring option"

record metadatos =
  fechaGeneracion :: jsstring
  modeloIA :: jsstring
  confianzaDeteccion :: jsnum
  diagnosticoIA :: jsstring
  version :: jsstring
  tipoInforme :: "jsstring option"

record report =
  resumenEjecutivo :: jsstring
  informeCompleto :: jsstring
  hallazgos :: jsstring
  recomendaciones :: jsstring
  metadatos :: metadatos
  disclaimer :: jsstring

text \<open>
  \<open>generateReport\<close> returns the bare text of the Python script in the MedGemma 4b-it branch
  and a structured report everywhere else.
\<close>

datatype informe = Texto jsstring | Estructurado report

text \<open>
  The remote service and the clock are outside the program. An HTTP request is rejected (with
  the status of the response, when one came) or resolved; of a resolved one the code reads
  \<open>response.data[0].generated_text\<close>, which is missing or falsy, a string, or a truthy value
  that is no string. The environment gives the answer to the POST of each attempt, the clock
  reading of each attempt's prompt, the two readings taken while a report is put together, the
  exit of the MedGemma script and the answer to the connection test.
\<close>

datatype generated = NoText | Text jsstring | NotAString

datatype http_reply = Rejected "nat option" jsstring | Resolved generated

text \<open>
  The exit of the MedGemma script: code 0 with its output, or another code with its error
  output. A process that cannot be started is not among the outcomes: the code registers no
  listener for that event.
\<close>

datatype script_exit = Exit0 jsstring | ExitFailed jsstring

record remote_env =
  post :: "nat \<Rightarrow> jsstring \<Rightarrow> http_reply"
  prompt_date :: "nat \<Rightarrow> jsdate"
  report_date1 :: jsdate
  report_date2 :: jsdate
  medgemma4b :: "jsstring \<Rightarrow> jsstring \<Rightarrow> script_exit"
  test_post :: http_reply

datatype remote_event =
    HttpPost nat jsstring
  | Sleep nat
  | PythonScript jsstring jsstring

definition testConnection :: "remote_env \<Rightarrow> generator \<Rightarrow> thrown + bool" where
  "testConnection env g =
     (case test_post env of
        Resolved r \<Rightarrow> Inr True
      | Rejected st m \<Rightarrow>
          if st = Some 503 then Inr True
          else Inl (Error (js ''Error de conexi'' @ [0xF3] @ js ''n con Hugging Face: '' @ m)))"

text \<open>
  \<open>initialize\<close> of the ReportGenerator. The failure of the connection test is caught where
  it arises, so the outer \<open>catch\<close>, which would clear the flag, is never entered: every path
  sets the flag.
\<close>

definition initialize_rg :: "remote_env \<Rightarrow> generator \<Rightarrow> generator" where
  "initialize_rg env g =
     (if no_valid_token g then g\<lparr> isInitialized_rg := True \<rparr>
      else if is_medgemma_4b_it g then g\<lparr> isInitialized_rg := True \<rparr>
      else (case testConnection env g of
              Inl err \<Rightarrow> g\<lparr> isInitialized_rg := True \<rparr>
            | Inr ok \<Rightarrow> g\<lparr> isInitialized_rg := True \<rparr>))"

text \<open>
  \<open>buildMedicalPrompt\<close>; its third parameter \<open>datosAdicionales\<close> is not used by the body.
  \<open>date\<close> is the clock reading of the call.
\<close>

definition buildMedicalPrompt :: "generator \<Rightarrow> jsdate \<Rightarrow> jsstring \<Rightarrow> jsnum \<Rightarrow> jsstring" where
  "buildMedicalPrompt g date diagnostico_p confianza_p =
     (if is_medgemma_4b_it g
      then
        js ''Por favor, genera un informe m'' @ [0xE9]
        @ js ''dico detallado sobre la presencia o ausencia de neumon'' @ [0xED]
        @ js ''a en la radiograf'' @ [0xED] @ js ''a proporcionada. No utilices informaci''
        @ [0xF3] @ js ''n adicional, solo analiza la imagen.''
      else
        (let confianzaPorcentaje = Math_round (times100 confianza_p) in
          js ''Como m'' @ [0xE9] @ js ''dico especialista en radiolog'' @ [0xED]
            @ js ''a, genera un informe m'' @ [0xE9]
            @ js ''dico detallado para la siguiente radiograf'' @ [0xED] @ js ''a de t''
            @ [0xF3] @ js ''rax:'' @ [10]
          @ [10]
          @ js ''RESULTADO DEL AN'' @ [0xC1] @ js ''LISIS:'' @ [10]
          @ js ''- Diagn'' @ [0xF3] @ js ''stico: '' @ diagnostico_p @ [10]
          @ js ''- Nivel de confianza: '' @ num_toString confianzaPorcentaje @ js ''%''
            @ [10]
          @ js ''- Fecha del an'' @ [0xE1] @ js ''lisis: '' @ toLocaleDateString date @ [10]
          @ [10]
          @ js ''INSTRUCCIONES:'' @ [10]
          @ js ''1. Genera un informe m'' @ [0xE9] @ js ''dico profesional en espa''
            @ [0xF1] @ js ''ol'' @ [10]
          @ js ''2. Incluye hallazgos radiol'' @ [0xF3] @ js ''gicos espec'' @ [0xED]
            @ js ''ficos'' @ [10]
          @ js ''3. Proporciona recomendaciones cl'' @ [0xED] @ js ''nicas'' @ [10]
          @ js ''4. Mant'' @ [0xE9] @ js ''n un tono profesional y m'' @ [0xE9]
            @ js ''dico'' @ [10]
          @ js ''5. El informe debe tener m'' @ [0xE1] @ js ''ximo 300 palabras'' @ [10]
          @ [10]
          @ js ''ESTRUCTURA REQUERIDA:'' @ [10]
          @ js ''- Hallazgos radiol'' @ [0xF3] @ js ''gicos'' @ [10]
          @ js ''- Impresi'' @ [0xF3] @ js ''n diagn'' @ [0xF3] @ js ''stica'' @ [10]
          @ js ''- Recomendaciones'' @ [10]
          @ [10]
          @ js ''Informe m'' @ [0xE9] @ js ''dico:''))"

text \<open>One attempt: what the body of the \<open>try\<close> returns or throws on the answer to its POST.\<close>

definition attempt_result :: "http_reply \<Rightarrow> thrown + jsstring" where
  "attempt_result r =
     (case r of
        Rejected st m \<Rightarrow> Inl (AxiosError st m)
      | Resolved NoText \<Rightarrow> Inl (Error (js ''Respuesta vac'' @ [0xED] @ js ''a de la API''))
      | Resolved (Text s) \<Rightarrow>
          if s = [] then Inl (Error (js ''Respuesta vac'' @ [0xED] @ js ''a de la API''))
          else Inr (trim s)
      | Resolved NotAString \<Rightarrow>
          Inl (TypeError (js ''response.data[0].generated_text.trim is not a function'')))"

text \<open>\<open>error.response?.status\<close>\<close>

fun response_status :: "thrown \<Rightarrow> nat option" where
  "response_status (AxiosError st m) = st"
| "response_status e = None"

text \<open>
  The \<open>for\<close> loop of \<open>generateWithRetry\<close>, from \<open>attempt\<close> on, with the value of
  \<open>lastError\<close>. It returns the text or what is thrown in the end, and the requests and waits
  made, in order.
\<close>

function generateWithRetry_loop ::
  "generator \<Rightarrow> remote_env \<Rightarrow> analysisData \<Rightarrow> nat \<Rightarrow> thrown
     \<Rightarrow> (thrown + jsstring) \<times> remote_event list" where
  "generateWithRetry_loop g env a attempt lastError =
     (if attempt \<le> maxRetries g
      then
        (let prompt = buildMedicalPrompt g (prompt_date env attempt) (diagnostico a) (confianza a)
         in case attempt_result (post env attempt prompt) of
              Inr text \<Rightarrow> (Inr text, [HttpPost attempt prompt])
            | Inl error \<Rightarrow>
                (let waits =
                       (if response_status error = Some 503
                        then [Sleep (retryDelay g * attempt)]
                        else if attempt < maxRetries g then [Sleep (retryDelay g)]
                        else [])
                 in case generateWithRetry_loop g env a (attempt + 1) error of
                      (r, evs) \<Rightarrow> (r, HttpPost attempt prompt # waits @ evs)))
      else (Inl lastError, []))"
  by pat_completeness auto
termination
  by (relation "measure (\<lambda>(g, env, a, attempt, lastError). Suc (maxRetries g) - attempt)") auto

declare generateWithRetry_loop.simps [simp del]

definition generateWithRetry ::
  "generator \<Rightarrow> remote_env \<Rightarrow> analysisData \<Rightarrow> (thrown + jsstring) \<times> remote_event list" where
  "generateWithRetry g env a = generateWithRetry_loop g env a 1 Undefined"

text \<open>
  The regular expressions of the two extractors. Both carry the flag \<open>i\<close>: a letter of the
  pattern matches itself and its capital, which for the letters of these patterns (a to z and
  o-acute) is the code unit 32 below. \<open>matches_ci\<close> matches a pattern of small letters at the
  start of a text; \<open>search_ci\<close> gives the text from the leftmost match on.
\<close>

fun matches_ci :: "jsstring \<Rightarrow> jsstring \<Rightarrow> bool" where
  "matches_ci [] s = True"
| "matches_ci (p # ps) [] = False"
| "matches_ci (p # ps) (c # cs) = ((c = p \<or> c + 32 = p) \<and> matches_ci ps cs)"

fun search_ci :: "jsstring \<Rightarrow> jsstring \<Rightarrow> jsstring option" where
  "search_ci pat [] = (if matches_ci pat [] then Some [] else None)"
| "search_ci pat (c # cs) =
     (if matches_ci pat (c # cs) then Some (c # cs) else search_ci pat cs)"

definition anchor_hallazgos :: jsstring where
  "anchor_hallazgos = js ''hallazgos''"

definition anchor_recomendaciones :: jsstring where
  "anchor_recomendaciones = js ''recomendaciones''"

definition anchor_impresion :: jsstring where
  "anchor_impresion =
     js ''impresi'' @ [0xF3] @ js ''n''"

text \<open>
  The lazy repetition of any character before the lookahead for \<open>recomendaciones\<close>,
  \<open>impresion\<close> (with o-acute) or the end of the text: the shortest
  stretch of text after which one of the two words, or the end of the text, follows.
\<close>

fun lazy_until_lookahead :: "jsstring \<Rightarrow> jsstring" where
  "lazy_until_lookahead [] = []"
| "lazy_until_lookahead (c # cs) =
     (if matches_ci anchor_recomendaciones (c # cs) \<or> matches_ci anchor_impresion (c # cs)
      then []
      else c # lazy_until_lookahead cs)"

text \<open>The texts the extractors return when the pattern does not match.\<close>

definition default_findings :: jsstring where
  "default_findings = js ''Ver informe completo''"

definition default_recommendations :: jsstring where
  "default_recommendations =
     js ''Consultar con especialista en neumolog'' @ [0xED] @ js ''a''"

definition extractFindings :: "jsstring \<Rightarrow> jsstring" where
  "extractFindings report_text =
     (case search_ci anchor_hallazgos report_text of
        Some rest \<Rightarrow>
          trim (take (length anchor_hallazgos) rest
                @ lazy_until_lookahead (drop (length anchor_hallazgos) rest))
      | None \<Rightarrow> default_findings)"

definition extractRecommendations :: "jsstring \<Rightarrow> jsstring" where
  "extractRecommendations report_text =
     (case search_ci anchor_recomendaciones report_text of
        Some rest \<Rightarrow> trim rest
      | None \<Rightarrow> default_recommendations)"

text \<open>
  The two disclaimer texts of the source: the one \<open>processReport\<close> attaches and the one
  \<open>generateFallbackReport\<close> attaches (it starts with the warning sign and its variation
  selector).
\<close>

definition disclaimer_IA :: jsstring where
  "disclaimer_IA =
     js ''Este informe fue generado por inteligencia artificial y debe ser''
     @ js '' revisado por un profesional m'' @ [0xE9]
     @ js ''dico cualificado antes de tomar decisiones cl'' @ [0xED] @ js ''nicas.''"

definition disclaimer_demo :: jsstring where
  "disclaimer_demo =
     [0x26A0, 0xFE0F] @ js '' IMPORTANTE: Este informe fue generado en modo demostraci''
     @ [0xF3] @ js ''n. Para uso cl'' @ [0xED]
     @ js ''nico real, configure el token de Hugging Face v'' @ [0xE1]
     @ js ''lido. Este resultado NO debe usarse para tomar decisiones m'' @ [0xE9]
     @ js ''dicas.''"

text \<open>\<open>processReport\<close>; \<open>date\<close> is the clock reading of \<open>fechaGeneracion\<close>.\<close>

definition processReport :: "generator \<Rightarrow> jsdate \<Rightarrow> jsstring \<Rightarrow> analysisData \<Rightarrow> report" where
  "processReport g date rawReport a =
     \<lparr> resumenEjecutivo =
            js ''An'' @ [0xE1] @ js ''lisis radiol'' @ [0xF3]
            @ js ''gico computarizado detect'' @ [0xF3] @ js '' ''
            @ toLowerCase (diagnostico a) @ js '' con ''
            @ num_toString (Math_round (times100 (confianza a))) @ js ''% de confianza.'',
       informeCompleto = rawReport,
       hallazgos = extractFindings rawReport,
       recomendaciones = extractRecommendations rawReport,
       metadatos =
         \<lparr> fechaGeneracion = toISOString date,
           modeloIA = modelName g,
           confianzaDeteccion = confianza a,
           diagnosticoIA = diagnostico a,
           version = js ''1.0.0'',
           tipoInforme = None \<rparr>,
       disclaimer = disclaimer_IA \<rparr>"

text \<open>
  \<open>generateFallbackReport\<close> reads the clock twice: \<open>date1\<close> goes into the text of the report,
  \<open>date2\<close> into \<open>fechaGeneracion\<close>.
\<close>

definition Demostracion :: jsstring where
  "Demostracion = js ''Demostraci'' @ [0xF3] @ js ''n''"

definition generateFallbackReport :: "analysisData \<Rightarrow> jsdate \<Rightarrow> jsdate \<Rightarrow> report" where
  "generateFallbackReport a date1 date2 =
     (let confianzaPorcentaje = Math_round (times100 (confianza a));
          informeBasico = trim (
          [10]
          @ js ''INFORME RADIOL'' @ [0xD3] @ js ''GICO AUTOMATIZADO - VERSI'' @ [0xD3]
            @ js ''N DEMO'' @ [10]
          @ [10]
          @ js ''HALLAZGOS RADIOL'' @ [0xD3] @ js ''GICOS:'' @ [10]
          @ js ''El an'' @ [0xE1] @ js ''lisis computarizado de la radiograf'' @ [0xED]
            @ js ''a de t'' @ [0xF3]
            @ js ''rax mediante red neuronal convolucional revela hallazgos compati''
            @ js ''bles con '' @ toLowerCase (diagnostico a)
            @ js ''. El sistema ha identificado patrones radiol'' @ [0xF3]
            @ js ''gicos que sugieren la presencia de cambios en el par'' @ [0xE9]
            @ js ''nquima pulmonar.'' @ [10]
          @ [10]
          @ js ''IMPRESI'' @ [0xD3] @ js ''N DIAGN'' @ [0xD3] @ js ''STICA:'' @ [10]
          @ js ''- Diagn'' @ [0xF3] @ js ''stico por IA: '' @ diagnostico a @ [10]
          @ js ''- Nivel de confianza: '' @ num_toString confianzaPorcentaje @ js ''%''
            @ [10]
          @ js ''- An'' @ [0xE1] @ js ''lisis realizado con modelo CNN especializado''
            @ [10]
          @ js ''- Fecha y hora del an'' @ [0xE1] @ js ''lisis: '' @ toLocaleString date1
            @ [10]
          @ [10]
          @ js ''RECOMENDACIONES CL'' @ [0xCD] @ js ''NICAS:'' @ [10]
          @ js ''1. **Correlaci'' @ [0xF3] @ js ''n cl'' @ [0xED]
            @ js ''nica obligatoria** - Los hallazgos deben ser interpretados en el''
            @ js '' contexto cl'' @ [0xED] @ js ''nico del paciente'' @ [10]
          @ js ''2. **Evaluaci'' @ [0xF3]
            @ js ''n por especialista** - Se recomienda revisi'' @ [0xF3]
            @ js ''n por radi'' @ [0xF3] @ js ''logo o neum'' @ [0xF3] @ js ''logo'' @ [10]
          @ js ''3. **Estudios complementarios** - Considerar TC de t'' @ [0xF3]
            @ js ''rax si est'' @ [0xE1] @ js '' cl'' @ [0xED] @ js ''nicamente indicado''
            @ [10]
          @ js ''4. **Seguimiento m'' @ [0xE9]
            @ js ''dico** - Establecer plan de seguimiento seg'' @ [0xFA]
            @ js ''n protocolo institucional'' @ [10]
          @ js ''5. **Historia cl'' @ [0xED] @ js ''nica** - Correlacionar con s'' @ [0xED]
            @ js ''ntomas, signos vitales y laboratorios'' @ [10]
          @ [10]
          @ js ''LIMITACIONES DEL SISTEMA:'' @ [10]
          @ js ''- Este an'' @ [0xE1] @ js ''lisis es una herramienta de apoyo diagn''
            @ [0xF3] @ js ''stico'' @ [10]
          @ js ''- No reemplaza el criterio m'' @ [0xE9] @ js ''dico profesional'' @ [10]
          @ js ''- Requiere validaci'' @ [0xF3] @ js ''n por especialista cualificado''
            @ [10]
          @ [10]
          @ js ''NOTA: Este es un informe automatizado generado para fines de dem''
            @ js ''ostraci'' @ [0xF3] @ js ''n y prueba del sistema RADOX.'' @ [10]
          @ js ''        '')
      in
      \<lparr> resumenEjecutivo =
            js ''Sistema de IA detect'' @ [0xF3] @ js '' '' @ toLowerCase (diagnostico a)
            @ js '' con '' @ num_toString confianzaPorcentaje
            @ js ''% de confianza. Requiere validaci'' @ [0xF3] @ js ''n m'' @ [0xE9]
            @ js ''dica profesional.'',
        informeCompleto = informeBasico,
        hallazgos =
            js ''An'' @ [0xE1]
            @ js ''lisis automatizado sugiere hallazgos compatibles con ''
            @ toLowerCase (diagnostico a) @ js ''. Confianza del sistema: ''
            @ num_toString confianzaPorcentaje @ js ''%'',
        recomendaciones =
            js ''Evaluaci'' @ [0xF3] @ js ''n m'' @ [0xE9]
            @ js ''dica profesional OBLIGATORIA para confirmaci'' @ [0xF3] @ js ''n diagn''
            @ [0xF3] @ js ''stica. Este resultado es solo de apoyo y no constituye diagn''
            @ [0xF3] @ js ''stico m'' @ [0xE9] @ js ''dico definitivo.'',
        metadatos =
          \<lparr> fechaGeneracion = toISOString date2,
            modeloIA = js ''Sistema RADOX Demo'',
            confianzaDeteccion = confianza a,
            diagnosticoIA = diagnostico a,
            version = js ''1.0.0'',
            tipoInforme = Some Demostracion \<rparr>,
        disclaimer = disclaimer_demo \<rparr>)"

text \<open>\<open>a || b || c\<close> on optional strings: the first truthy one, the last one otherwise.\<close>

fun first_truthy :: "jsstring option list \<Rightarrow> jsstring option" where
  "first_truthy [] = None"
| "first_truthy [x] = x"
| "first_truthy (x # xs) = (if truthy x then x else first_truthy xs)"

text \<open>
  \<open>generateReport\<close>: the report or what is thrown, and the requests, waits and scripts run.
  In the MedGemma 4b-it branch the prompt is the fixed text, which reads no clock, and nothing
  catches what the script or the check of the image path throws.
\<close>

definition generateReport ::
  "generator \<Rightarrow> remote_env \<Rightarrow> analysisData \<Rightarrow> (thrown + informe) \<times> remote_event list" where
  "generateReport g env a =
     (if is_medgemma_4b_it g
      then
        (let prompt = buildMedicalPrompt g (prompt_date env 0) (diagnostico a) (confianza a);
             imagePath = first_truthy [imagePath a, imagenPath a, image_path a]
         in if \<not> truthy imagePath
            then (Inl (Error (js ''No se proporcion'' @ [0xF3]
                    @ js '' la ruta local de la imagen para MedGemma 4b-it'')), [])
            else (case medgemma4b env prompt (the imagePath) of
                    Exit0 output \<Rightarrow> Inr (Texto (trim output))
                  | ExitFailed error \<Rightarrow> Inl (Error (js ''Error Python: '' @ error)),
                  [PythonScript prompt (the imagePath)]))
      else if \<not> isInitialized_rg g
      then (Inl (Error (js ''El generador de informes no est'' @ [0xE1] @ js '' inicializado'')), [])
      else if no_valid_token g
      then (Inr (Estructurado (generateFallbackReport a (report_date1 env) (report_date2 env))), [])
      else
        (case generateWithRetry g env a of
           (Inr informe, evs) \<Rightarrow>
             (Inr (Estructurado (processReport g (report_date1 env) informe a)), evs)
         | (Inl error, evs) \<Rightarrow>
             (Inr (Estructurado (generateFallbackReport a (report_date1 env) (report_date2 env))),
              evs)))"

section \<open>The request handlers (server.js)\<close>

record resultado =
  diagnostico_r :: jsstring
  confianza_r :: jsnum
  porcentaje_r :: jsnum
  tieneNeumonia_r :: bool
  puedeGenerarInforme_r :: bool
  imagePath_r :: jsstring

datatype response =
    Ok200 resultado
  | ReportOk informe
  | Status400 jsstring
  | Status500 jsstring jsstring

text \<open>What a request does, in order: the \<open>sharp\<close> pipelines, the call of \<open>predict\<close>, the removals.\<close>

datatype server_event =
    Sharp sharp_job
  | Predict jsstring
  | Spawn "jsstring list"
  | Remove jsstring

text \<open>
  \<open>req.file\<close> is the upload as multer stored it (\<open>None\<close> when the request has no file); its
  \<open>path\<close> is what the handler passes on. The threshold is
  \<open>parseFloat(process.env.CONFIDENCE_THRESHOLD)\<close>.
\<close>

definition analyze ::
  "('a image_env_scheme) \<Rightarrow> image_processor \<Rightarrow> detector \<Rightarrow> jsnum \<Rightarrow> jsstring option
     \<Rightarrow> response \<times> server_event list" where
  "analyze env ip d threshold req_file =
     (case req_file of
        None \<Rightarrow> (Status400 (js ''No se proporcion'' @ [0xF3] @ js '' ning'' @ [0xFA]
                            @ js ''n archivo de imagen''), [])
      | Some file_path \<Rightarrow>
          (let failed = (\<lambda>e evs. (Status500 (js ''Error interno al analizar la imagen'') (message e),
                                  evs @ [Remove file_path]))
           in case processImage env ip file_path of
                (Inl e, jobs) \<Rightarrow> failed e (map Sharp jobs)
              | (Inr processedImagePath, jobs) \<Rightarrow>
                  (case predict env d processedImagePath of
                     (Inl e, spawned) \<Rightarrow>
                       failed e (map Sharp jobs @ [Predict processedImagePath] @ map Spawn spawned)
                   | (Inr p, spawned) \<Rightarrow>
                       (let evs = map Sharp jobs @ [Predict processedImagePath] @ map Spawn spawned
                        in case fs_remove env file_path of
                             Some m \<Rightarrow> failed (Error m) (evs @ [Remove file_path])
                           | None \<Rightarrow>
                               (Ok200 \<lparr> diagnostico_r = label p,
                                        confianza_r = confidence p,
                                        porcentaje_r = Math_round (times100 (confidence p)),
                                        tieneNeumonia_r = (label p = Neumonia),
                                        puedeGenerarInforme_r = puedeGenerarInforme p threshold,
                                        imagePath_r = processedImagePath \<rparr>,
                                evs @ [Remove file_path])))))"

text \<open>
  \<open>POST /api/generate-report\<close>. The body carries \<open>diagnostico\<close>, \<open>confianza\<close> and
  \<open>imagePath\<close>; when it has no \<open>imagePath\<close> the handler takes the newest image of the
  uploads directory, if there is one (\<open>latest_upload\<close>). \<open>CONFIDENCE_THRESHOLD\<close> is the
  setting as text and \<open>threshold\<close> its \<open>parseFloat\<close>.
\<close>

record report_request =
  body_diagnostico :: "jsstring option"
  body_confianza :: jsnum
  body_imagePath :: "jsstring option"

definition generate_report_guard :: "jsstring \<Rightarrow> jsnum \<Rightarrow> report_request \<Rightarrow> jsstring option" where
  "generate_report_guard CONFIDENCE_THRESHOLD threshold req =
     (if \<not> truthy (body_diagnostico req) \<or> body_diagnostico req \<noteq> Some Neumonia
      then Some (js ''Solo se pueden generar informes para neumon'' @ [0xED] @ js ''a'')
      else if js_lt (body_confianza req) threshold
      then Some (js ''Confianza m'' @ [0xED] @ js ''nima '' @ CONFIDENCE_THRESHOLD)
      else None)"

definition generate_report ::
  "generator \<Rightarrow> remote_env \<Rightarrow> jsstring \<Rightarrow> jsnum \<Rightarrow> jsstring option \<Rightarrow> report_request
     \<Rightarrow> response \<times> remote_event list" where
  "generate_report g env CONFIDENCE_THRESHOLD threshold latest_upload req =
     (let imagePath_b =
            (if truthy (body_imagePath req) then body_imagePath req
             else (case latest_upload of Some f \<Rightarrow> Some f | None \<Rightarrow> body_imagePath req))
      in case generate_report_guard CONFIDENCE_THRESHOLD threshold req of
           Some m \<Rightarrow> (Status400 m, [])
         | None \<Rightarrow>
             (case generateReport g env
                     \<lparr> diagnostico = the (body_diagnostico req),
                       confianza = body_confianza req,
                       imagePath = imagePath_b,
                       imagenPath = None,
                       image_path = None \<rparr> of
                (Inr informe, evs) \<Rightarrow> (ReportOk informe, evs)
              | (Inl e, evs) \<Rightarrow>
                  (Status500 (js ''Error al generar informe m'' @ [0xE9] @ js ''dico'') (message e),
                   evs)))"

section \<open>Notions used in the statements\<close>


definition attempt_prompt :: "generator \<Rightarrow> remote_env \<Rightarrow> analysisData \<Rightarrow> nat \<Rightarrow> jsstring" where
  "attempt_prompt g env a k =
     buildMedicalPrompt g (prompt_date env k) (diagnostico a) (confianza a)"

definition attempt_outcome ::
  "generator \<Rightarrow> remote_env \<Rightarrow> analysisData \<Rightarrow> nat \<Rightarrow> thrown + jsstring" where
  "attempt_outcome g env a k = attempt_result (post env k (attempt_prompt g env a k))"



text \<open>The waits the loop makes after the failure \<open>e\<close> of attempt \<open>k\<close>, as the code has them.\<close>

definition wait_after :: "generator \<Rightarrow> nat \<Rightarrow> thrown \<Rightarrow> remote_event list" where
  "wait_after g k e =
     (if response_status e = Some 503 then [Sleep (retryDelay g * k)]
      else if k < maxRetries g then [Sleep (retryDelay g)] else [])"

text \<open>
  A pattern occurs in a text when it matches, ignoring case, at some position of the text.
\<close>

definition occurs_ci :: "jsstring \<Rightarrow> jsstring \<Rightarrow> bool" where
  "occurs_ci pat s \<longleftrightarrow> (\<exists>i \<in> {0..length s}. matches_ci pat (drop i s))"

section \<open>Concrete environments and inputs\<close>

text \<open>
  The runs the theorems below are evaluated on. \<open>env_ready\<close>: the bridge script exists and its
  \<open>init\<close> reports success. \<open>env_no_script\<close>: the bridge script is missing.
\<close>

definition env_ready :: bridge_env where
  "env_ready = \<lparr> pathExists = (\<lambda>p. True), python = (\<lambda>args. Json True) \<rparr>"

definition env_no_script :: bridge_env where
  "env_no_script = \<lparr> pathExists = (\<lambda>p. False), python = (\<lambda>args. Json True) \<rparr>"

definition processed_jpeg :: jsstring where
  "processed_jpeg = js ''uploads/radiografia-1700000000000-42_processed_1700000000123.jpeg''"

text \<open>
  An upload of a PNG of 50 by 50 pixels, which \<open>sharp\<close> reads and writes without error. The
  functions of \<open>path\<close> are given by their values on this file.
\<close>

definition small_png :: jsstring where
  "small_png = js ''uploads/radiografia-1700000000000-42.png''"

definition env_small :: image_env where
  "env_small =
     \<lparr> pathExists = (\<lambda>p. p = small_png \<or> p = js ''./scripts/python_cnn_bridge.py''),
       python = (\<lambda>args. Json True),
       extname = (\<lambda>p. js ''.png''),
       dirname = (\<lambda>p. js ''uploads''),
       basename = (\<lambda>p ext. js ''radiografia-1700000000000-42''),
       join = (\<lambda>dir name. dir @ js ''/'' @ name),
       Date_now = 1700000000123,
       sharp_toFile = (\<lambda>job. None),
       written_channels = (\<lambda>job. 3),
       sharp_metadata =
         (\<lambda>p. Inr \<lparr> format = js ''png'', width = 50, height = 50, channels = 3 \<rparr>),
       stat_size = (\<lambda>p. Inr 2048),
       fs_remove = (\<lambda>p. None) \<rparr>"

definition detector_small :: detector where
  "detector_small = fst (snd (initialize env_small (new_PneumoniaDetector None)))"

text \<open>
  An upload of a DICOM file, which \<open>sharp\<close> cannot read (\<open>env_dicom\<close>), and an upload of
  the same name whose content \<open>sharp\<close> can read (\<open>env_dicom_readable\<close>). As \<open>sharp\<close> does
  after \<open>grayscale()\<close> when no colourspace is asked for, it writes three identical channels.
\<close>

definition dicom_file :: jsstring where
  "dicom_file = js ''uploads/radiografia-1700000000000-43.dcm''"

definition env_dicom :: image_env where
  "env_dicom =
     \<lparr> pathExists = (\<lambda>p. p = dicom_file),
       python = (\<lambda>args. Json True),
       extname = (\<lambda>p. js ''.dcm''),
       dirname = (\<lambda>p. js ''uploads''),
       basename = (\<lambda>p ext. js ''radiografia-1700000000000-43''),
       join = (\<lambda>dir name. dir @ js ''/'' @ name),
       Date_now = 1700000000123,
       sharp_toFile = (\<lambda>job. Some (js ''Input file contains unsupported image format'')),
       written_channels = (\<lambda>job. 3),
       sharp_metadata = (\<lambda>p. Inl (js ''Input file contains unsupported image format'')),
       stat_size = (\<lambda>p. Inr 524288),
       fs_remove = (\<lambda>p. None) \<rparr>"

definition env_dicom_readable :: image_env where
  "env_dicom_readable = env_dicom\<lparr> sharp_toFile := (\<lambda>job. None) \<rparr>"

text \<open>
  A positive case at confidence 0.85, two readings of the clock one second apart, and a remote
  service that is down: the first and third POST are answered with 503, the second runs into the
  timeout, and the MedGemma script exits with an error.
\<close>

definition eligible_case :: analysisData where
  "eligible_case =
     \<lparr> diagnostico = Neumonia, confianza = Num 0.85, imagePath = Some processed_jpeg,
       imagenPath = None, image_path = None \<rparr>"

definition clock_a :: jsdate where
  "clock_a = \<lparr> toLocaleDateString = js ''3/11/2026'',
               toLocaleString = js ''3/11/2026, 10:15:00'',
               toISOString = js ''2026-11-03T09:15:00.000Z'' \<rparr>"


definition env_down :: remote_env where
  "env_down =
     \<lparr> post = (\<lambda>k p. if k = 2 then Rejected None (js ''timeout of 30000ms exceeded'')
                       else Rejected (Some 503) (js ''Request failed with status code 503'')),
       prompt_date = (\<lambda>k. clock_a),
       report_date1 = clock_a,
       report_date2 = clock_a,
       medgemma4b = (\<lambda>p i. ExitFailed (js ''RuntimeError: CUDA out of memory'')),
       test_post = Rejected (Some 503) (js ''Request failed with status code 503'') \<rparr>"

definition g_rest :: generator where
  "g_rest = initialize_rg env_down (new_ReportGenerator (Some (js ''hf_live_token'')) None)"

definition g_4b :: generator where
  "g_4b = initialize_rg env_down
            (new_ReportGenerator (Some (js ''hf_live_token''))
               (Some (js ''google/medgemma-4b-it'')))"

text \<open>
  A remote service that answers the first POST with a generated text (\<open>env_up\<close>), and a
  MedGemma script that exits with code 0 after printing a text (\<open>env_4b_ok\<close>).
\<close>

definition script_text :: jsstring where
  "script_text = js ''Informe: consolidacion en el lobulo inferior derecho.''"

definition env_4b_ok :: remote_env where
  "env_4b_ok = env_down\<lparr> medgemma4b := (\<lambda>p i. Exit0 (script_text @ [10])) \<rparr>"

text \<open>A generated text with the three headings, and one with none of them.\<close>

definition raw_text :: jsstring where
  "raw_text =
     js ''HALLAZGOS: opacidad basal derecha.'' @ [10]
     @ js ''Impresi'' @ [0xF3] @ js ''n: neumon'' @ [0xED] @ js ''a lobar.'' @ [10]
     @ js ''Recomendaciones: control en 48 horas.'' @ [10]"

definition plain_text :: jsstring where
  "plain_text = js ''Opacidad basal derecha compatible con consolidaci'' @ [0xF3] @ js ''n.''"

definition env_up :: remote_env where
  "env_up = env_down\<lparr> post := (\<lambda>k p. Resolved (Text raw_text)) \<rparr>"

section \<open>The decision gate\<close>

text \<open>
  C1. The decision gate \<open>puedeGenerarInforme\<close> is true exactly when the label of the
  prediction is the positive label \<open>Neumonia\<close> and the confidence is greater than or equal to
  the threshold, in the sense of JavaScript's \<open>>=\<close>: on finite numbers that is the order of
  the reals, and against a threshold that is NaN (the setting is missing) the gate is false.
  The gate is a function of the prediction and the threshold alone.
\<close>

theorem puedeGenerarInforme_iff:
  "(puedeGenerarInforme p threshold \<longleftrightarrow> label p = Neumonia \<and> js_ge (confidence p) threshold)
   \<and> (puedeGenerarInforme (p\<lparr>confidence := Num c\<rparr>) (Num t) \<longleftrightarrow> label p = Neumonia \<and> t \<le> c)
   \<and> \<not> puedeGenerarInforme p NaN"
  by (cases "confidence p") (simp_all add: puedeGenerarInforme_def)

text \<open>
  On a body with a label and finite numbers, the check of \<open>POST /api/generate-report\<close> lets
  pass exactly what the gate accepts.
\<close>

lemma generate_report_guard_agrees:
  "generate_report_guard T (Num t)
     \<lparr> body_diagnostico = Some (label p), body_confianza = Num c, body_imagePath = ip \<rparr> = None
   \<longleftrightarrow> puedeGenerarInforme (p\<lparr>confidence := Num c\<rparr>) (Num t)"
  by (auto simp: generate_report_guard_def puedeGenerarInforme_def Neumonia_def js_def)

section \<open>The detector\<close>

lemma initialize_resolves: "fst (initialize env d) = Inr ()"
  by (simp add: initialize_def split: prod.splits sum.splits)

lemma initialize_isInitialized: "isInitialized (fst (snd (initialize env d)))"
  by (auto simp add: initialize_def initialize_try_def callPythonBridge_def Let_def
      split: prod.splits sum.splits bridge_reply.splits if_splits)

text \<open>
  C2. When \<open>initialize\<close> succeeds (the bridge script exists and its \<open>init\<close> reports success),
  the detector is left with \<open>useMockModel = false\<close>, and \<open>predict\<close> then returns the same
  hard-coded prediction for every image path, with label \<open>Neumonia\<close>, confidence 0.85 and the
  class probabilities 0.85 and 0.15, without any invocation of the Python bridge.
\<close>

theorem predict_hard_coded:
  assumes "pathExists env (pythonBridgePath d0)"
    and "python env (bridge_args d0 (js ''init'') None) = Json True"
  shows "case initialize env d0 of (r, d, spawned) \<Rightarrow>
           r = Inr () \<and> isInitialized d \<and> useMockModel d = Some False
           \<and> (\<forall>path. predict env d path = (Inr hard_coded_prediction, []))
           \<and> label hard_coded_prediction = Neumonia
           \<and> confidence hard_coded_prediction = Num 0.85
           \<and> classProbabilities hard_coded_prediction
               = [(Neumonia, Num 0.85), (js ''Normal'', Num 0.15)]"
  using assms
  by (simp add: initialize_def initialize_try_def callPythonBridge_def predict_def Let_def
      hard_coded_prediction_def)

text \<open>The run of C2 on \<open>env_ready\<close>, from a freshly constructed detector.\<close>

theorem predict_hard_coded_witness:
  "pathExists env_ready (pythonBridgePath (new_PneumoniaDetector None))
   \<and> python env_ready (bridge_args (new_PneumoniaDetector None) (js ''init'') None) = Json True
   \<and> predict env_ready (fst (snd (initialize env_ready (new_PneumoniaDetector None))))
         processed_jpeg
       = (Inr hard_coded_prediction, [])"
proof -
  have h1: "pathExists env_ready (pythonBridgePath (new_PneumoniaDetector None))"
    by (simp add: env_ready_def)
  have h2: "python env_ready (bridge_args (new_PneumoniaDetector None) (js ''init'') None)
              = Json True"
    by (simp add: env_ready_def)
  from predict_hard_coded [OF h1 h2] h1 h2 show ?thesis
    by (auto split: prod.splits)
qed

text \<open>
  C6. When the bridge script is missing, \<open>initialize\<close> resolves and leaves the detector
  initialized in mock mode; the \<open>predict\<close> that follows does not return a mock prediction: it
  throws the TypeError of the call of the undefined \<open>this.mockPredict\<close>.
\<close>

theorem predict_after_failed_initialize:
  "(case initialize env_no_script (new_PneumoniaDetector None) of (r, d, spawned) \<Rightarrow>
      r = Inr () \<and> isInitialized d \<and> useMockModel d = Some True
      \<and> predict env_no_script d processed_jpeg
          = (Inl (TypeError (js ''this.mockPredict is not a function'')), []))"
  by (simp add: initialize_def initialize_try_def predict_def env_no_script_def
      new_PneumoniaDetector_def)

text \<open>The same on every run of \<open>initialize\<close> that ends in mock mode.\<close>

lemma predict_mock_mode_raises:
  "useMockModel (fst (snd (initialize env d0))) = Some True \<Longrightarrow>
   predict env (fst (snd (initialize env d0))) path
     = (Inl (TypeError (js ''this.mockPredict is not a function'')), [])"
  using initialize_isInitialized [of env d0] by (simp add: predict_def)

section \<open>The image processor\<close>

lemma digits_now: "digits 1700000000123 = js ''1700000000123''"
  by (simp add: digits.simps js_def)

lemma supported_standard:
  "e \<in> {js ''.jpg'', js ''.jpeg'', js ''.png''} \<Longrightarrow>
   e \<in> set (supportedFormats (new_ImageProcessor sz0)) \<and> e \<noteq> js ''.dcm'' \<and> e \<noteq> js ''.dicom''"
  by (auto simp: new_ImageProcessor_def js_def)

lemma supported_dicom:
  "e = js ''.dcm'' \<or> e = js ''.dicom'' \<Longrightarrow> e \<in> set (supportedFormats (new_ImageProcessor sz0))"
  by (auto simp: new_ImageProcessor_def)

lemma dicom_readable_out:
  "generateOutputPath env_dicom_readable (new_ImageProcessor None) dicom_file
     = js ''uploads/radiografia-1700000000000-43_processed_1700000000123.jpeg''"
  by (simp add: generateOutputPath_def env_dicom_readable_def env_dicom_def
      new_ImageProcessor_def digits_now js_def)

lemma dicom_readable_facts:
  "pathExists env_dicom_readable dicom_file"
  "toLowerCase (extname env_dicom_readable dicom_file) = js ''.dcm''"
  "sharp_toFile env_dicom_readable = (\<lambda>job. None)"
  "written_channels env_dicom_readable = (\<lambda>job. 3)"
  by (simp_all add: env_dicom_readable_def env_dicom_def toLowerCase_def lower_unit_def js_def)

text \<open>
  C8, as the claim states it, fails on both counts. A DICOM upload that \<open>sharp\<close> cannot read
  makes \<open>processImage\<close> throw, and no image is produced. An upload named \<open>.dcm\<close> that
  \<open>sharp\<close> can read is processed, by a chain that asks for no colourspace, and the file
  \<open>sharp\<close> writes has three channels, not one.
\<close>

theorem dicom_input_fails:
  "pathExists env_dicom dicom_file
   \<and> toLowerCase (extname env_dicom dicom_file) = js ''.dcm''
   \<and> fst (processImage env_dicom (new_ImageProcessor None) dicom_file)
       = Inl (Error (js ''Error al procesar imagen DICOM: Error al procesar imagen est'' @ [0xE1]
                     @ js ''ndar: Input file contains unsupported image format''))
   \<and> processImage env_dicom_readable (new_ImageProcessor None) dicom_file
       = (Inr (js ''uploads/radiografia-1700000000000-43_processed_1700000000123.jpeg''),
          [standard_pipeline (new_ImageProcessor None) dicom_file
             (js ''uploads/radiografia-1700000000000-43_processed_1700000000123.jpeg'')])
   \<and> toColourspace_op
         (standard_pipeline (new_ImageProcessor None) dicom_file
            (js ''uploads/radiografia-1700000000000-43_processed_1700000000123.jpeg'')) = None
   \<and> written_channels env_dicom_readable
         (standard_pipeline (new_ImageProcessor None) dicom_file
            (js ''uploads/radiografia-1700000000000-43_processed_1700000000123.jpeg'')) = 3"
proof -
  let ?ip = "new_ImageProcessor None"
  have ext: "toLowerCase (extname env_dicom dicom_file) = js ''.dcm''"
    by (simp add: env_dicom_def toLowerCase_def lower_unit_def js_def)
  have sup: "js ''.dcm'' \<in> set (supportedFormats ?ip)"
    by (simp add: supported_dicom)
  have ex: "pathExists env_dicom dicom_file"
    "sharp_toFile env_dicom = (\<lambda>job. Some (js ''Input file contains unsupported image format''))"
    by (simp_all add: env_dicom_def)
  have fails: "fst (processImage env_dicom ?ip dicom_file)
       = Inl (Error (js ''Error al procesar imagen DICOM: Error al procesar imagen est'' @ [0xE1]
                     @ js ''ndar: Input file contains unsupported image format''))"
    by (simp add: processImage_def processDicomImage_def processStandardImage_def Let_def
        ext sup ex)
      (simp add: js_def)
  have reads: "processImage env_dicom_readable ?ip dicom_file
       = (Inr (js ''uploads/radiografia-1700000000000-43_processed_1700000000123.jpeg''),
          [standard_pipeline ?ip dicom_file
             (js ''uploads/radiografia-1700000000000-43_processed_1700000000123.jpeg'')])"
    by (simp add: processImage_def processDicomImage_def processStandardImage_def Let_def
        dicom_readable_facts sup dicom_readable_out)
  have "toColourspace_op
         (standard_pipeline ?ip dicom_file
            (js ''uploads/radiografia-1700000000000-43_processed_1700000000123.jpeg'')) = None"
    by (simp add: standard_pipeline_def)
  with ext ex fails reads show ?thesis by (simp add: dicom_readable_facts)
qed

text \<open>
  C8, amended. A \<open>.dcm\<close> or \<open>.dicom\<close> input that exists is decoded by no medical-format
  decoder: it is put through the one pipeline of the standard images, which resizes to the
  target square, calls \<open>grayscale()\<close> and \<open>normalize()\<close>, asks for no colourspace and writes a
  JPEG. When \<open>sharp\<close> can read the file, the result is the path of the image \<open>sharp\<close> wrote,
  with the channels \<open>sharp\<close> gave it; when it cannot, \<open>processImage\<close> throws the error of
  \<open>sharp\<close>, wrapped twice.
\<close>

theorem dicom_input_as_standard_image:
  assumes "pathExists env p"
    and "toLowerCase (extname env p) = js ''.dcm'' \<or> toLowerCase (extname env p) = js ''.dicom''"
  shows "processImage env (new_ImageProcessor sz0) p =
           (case sharp_toFile env
                   (standard_pipeline (new_ImageProcessor sz0) p
                      (generateOutputPath env (new_ImageProcessor sz0) p)) of
              None \<Rightarrow> Inr (generateOutputPath env (new_ImageProcessor sz0) p)
            | Some m \<Rightarrow>
                Inl (Error (js ''Error al procesar imagen DICOM: Error al procesar imagen est''
                            @ [0xE1] @ js ''ndar: '' @ m)),
            [standard_pipeline (new_ImageProcessor sz0) p
               (generateOutputPath env (new_ImageProcessor sz0) p)])
         \<and> standard_pipeline (new_ImageProcessor sz0) p
               (generateOutputPath env (new_ImageProcessor sz0) p)
             = \<lparr> src_file = p,
                 resize_width = targetSize (new_ImageProcessor sz0),
                 resize_height = targetSize (new_ImageProcessor sz0),
                 fit = js ''cover'', position = js ''center'',
                 grayscale_op = True, normalize_op = True, toColourspace_op = None,
                 jpeg_quality = 90,
                 dest_file = generateOutputPath env (new_ImageProcessor sz0) p \<rparr>"
proof -
  let ?ip = "new_ImageProcessor sz0"
  have sup: "toLowerCase (extname env p) \<in> set (supportedFormats ?ip)"
    using assms(2) by (rule supported_dicom)
  have "standard_pipeline ?ip p (generateOutputPath env ?ip p)
             = \<lparr> src_file = p, resize_width = targetSize ?ip, resize_height = targetSize ?ip,
                 fit = js ''cover'', position = js ''center'',
                 grayscale_op = True, normalize_op = True, toColourspace_op = None,
                 jpeg_quality = 90,
                 dest_file = generateOutputPath env ?ip p \<rparr>"
    by (simp add: standard_pipeline_def new_ImageProcessor_def)
  moreover have "processImage env ?ip p =
           (case sharp_toFile env (standard_pipeline ?ip p (generateOutputPath env ?ip p)) of
              None \<Rightarrow> Inr (generateOutputPath env ?ip p)
            | Some m \<Rightarrow>
                Inl (Error (js ''Error al procesar imagen DICOM: Error al procesar imagen est''
                            @ [0xE1] @ js ''ndar: '' @ m)),
            [standard_pipeline ?ip p (generateOutputPath env ?ip p)])"
    using assms sup
    by (auto simp add: processImage_def processDicomImage_def processStandardImage_def Let_def
        js_def split: option.splits)
  ultimately show ?thesis by simp
qed

text \<open>The run of the amended C8 on the upload named \<open>.dcm\<close> that \<open>sharp\<close> can read.\<close>

theorem dicom_input_as_standard_image_witness:
  "pathExists env_dicom_readable dicom_file
   \<and> (toLowerCase (extname env_dicom_readable dicom_file) = js ''.dcm''
      \<or> toLowerCase (extname env_dicom_readable dicom_file) = js ''.dicom'')
   \<and> fst (processImage env_dicom_readable (new_ImageProcessor None) dicom_file)
       = Inr (js ''uploads/radiografia-1700000000000-43_processed_1700000000123.jpeg'')"
proof -
  have h2: "toLowerCase (extname env_dicom_readable dicom_file) = js ''.dcm''
      \<or> toLowerCase (extname env_dicom_readable dicom_file) = js ''.dicom''"
    by (simp add: dicom_readable_facts)
  from dicom_input_as_standard_image [OF dicom_readable_facts(1) h2, of None]
    dicom_readable_facts dicom_readable_out
  show ?thesis by simp
qed

lemma out_small:
  "generateOutputPath env_small (new_ImageProcessor None) small_png = processed_jpeg"
  by (simp add: generateOutputPath_def env_small_def new_ImageProcessor_def digits_now
      processed_jpeg_def js_def)

lemma env_small_facts:
  "pathExists env_small small_png"
  "toLowerCase (extname env_small small_png) = js ''.png''"
  "sharp_toFile env_small = (\<lambda>job. None)"
  "sharp_metadata env_small small_png
     = Inr \<lparr> format = js ''png'', width = 50, height = 50, channels = 3 \<rparr>"
  "stat_size env_small small_png = Inr 2048"
  by (simp_all add: env_small_def toLowerCase_def lower_unit_def js_def)

lemma processImage_standard:
  assumes "pathExists env p"
    and "toLowerCase (extname env p) \<in> {js ''.jpg'', js ''.jpeg'', js ''.png''}"
    and "sharp_toFile env (standard_pipeline (new_ImageProcessor sz0) p
                             (generateOutputPath env (new_ImageProcessor sz0) p)) = None"
  shows "processImage env (new_ImageProcessor sz0) p
           = (Inr (generateOutputPath env (new_ImageProcessor sz0) p),
              [standard_pipeline (new_ImageProcessor sz0) p
                 (generateOutputPath env (new_ImageProcessor sz0) p)])"
  using assms(1,3) supported_standard [OF assms(2), of sz0]
  by (simp add: processImage_def processStandardImage_def Let_def)

lemma analyze_calls_predict:
  "fst (processImage env ip p) = Inr out \<Longrightarrow>
   Predict out \<in> set (snd (analyze env ip d threshold (Some p)))"
  by (auto simp add: analyze_def Let_def split: prod.splits sum.splits option.splits)

text \<open>
  C9, as the claim states it, fails: the upload of 50 by 50 pixels is processed like any other
  image, and the handler of \<open>POST /api/analyze\<close> goes on to call \<open>predict\<close> on the result.
\<close>

theorem small_image_is_processed:
  "sharp_metadata env_small small_png
     = Inr \<lparr> format = js ''png'', width = 50, height = 50, channels = 3 \<rparr>
   \<and> fst (processImage env_small (new_ImageProcessor None) small_png) = Inr processed_jpeg
   \<and> Predict processed_jpeg
        \<in> set (snd (analyze env_small (new_ImageProcessor None) detector_small (Num 0.8)
                       (Some small_png)))"
proof -
  have "processImage env_small (new_ImageProcessor None) small_png
          = (Inr processed_jpeg, [standard_pipeline (new_ImageProcessor None) small_png processed_jpeg])"
    using processImage_standard [of env_small small_png None]
    by (simp add: env_small_facts out_small)
  then have pi: "fst (processImage env_small (new_ImageProcessor None) small_png) = Inr processed_jpeg"
    by simp
  from analyze_calls_predict [OF pi] pi env_small_facts(4) show ?thesis by simp
qed

text \<open>
  C9, amended. For an image below 100 by 100 pixels, \<open>validateImage\<close> returns a report that
  is not valid and lists the too-small error; it does not throw. \<open>processImage\<close> does not
  consult it and checks no dimension: when the file exists, has a standard extension and
  \<open>sharp\<close> writes the output, the image is normalized and the handler calls \<open>predict\<close> on it.
\<close>

theorem small_image_validation_only:
  assumes "sharp_metadata env p = Inr md" and "stat_size env p = Inr sz"
    and "width md < 100 \<or> height md < 100"
    and "pathExists env p"
    and "toLowerCase (extname env p) \<in> {js ''.jpg'', js ''.jpeg'', js ''.png''}"
    and "sharp_toFile env (standard_pipeline (new_ImageProcessor sz0) p
                             (generateOutputPath env (new_ImageProcessor sz0) p)) = None"
  shows "\<not> isValid (validateImage env M p)
         \<and> too_small_message \<in> set (errors (validateImage env M p))
         \<and> fst (processImage env (new_ImageProcessor sz0) p)
             = Inr (generateOutputPath env (new_ImageProcessor sz0) p)
         \<and> Predict (generateOutputPath env (new_ImageProcessor sz0) p)
             \<in> set (snd (analyze env (new_ImageProcessor sz0) d threshold (Some p)))"
proof -
  let ?ip = "new_ImageProcessor sz0"
  have v: "\<not> isValid (validateImage env M p)
           \<and> too_small_message \<in> set (errors (validateImage env M p))"
    using assms(1-3) by (simp add: validateImage_def Let_def)
  have pi: "fst (processImage env ?ip p) = Inr (generateOutputPath env ?ip p)"
    using processImage_standard [OF assms(4-6)] by simp
  from analyze_calls_predict [OF pi] v pi show ?thesis by simp
qed

text \<open>The run of the amended C9 on the upload of 50 by 50 pixels.\<close>

theorem small_image_validation_only_witness:
  "sharp_metadata env_small small_png
     = Inr \<lparr> format = js ''png'', width = 50, height = 50, channels = 3 \<rparr>
   \<and> stat_size env_small small_png = Inr 2048
   \<and> pathExists env_small small_png
   \<and> toLowerCase (extname env_small small_png) = js ''.png''
   \<and> \<not> isValid (validateImage env_small (Num 10485760) small_png)
   \<and> errors (validateImage env_small (Num 10485760) small_png) = [too_small_message]
   \<and> fst (processImage env_small (new_ImageProcessor None) small_png) = Inr processed_jpeg"
proof -
  have h3: "width \<lparr> format = js ''png'', width = 50, height = 50, channels = 3 \<rparr> < 100
            \<or> height \<lparr> format = js ''png'', width = 50, height = 50, channels = 3 \<rparr> < 100"
    by simp
  have h5: "toLowerCase (extname env_small small_png) \<in> {js ''.jpg'', js ''.jpeg'', js ''.png''}"
    by (simp add: env_small_facts)
  have h6: "sharp_toFile env_small (standard_pipeline (new_ImageProcessor None) small_png
              (generateOutputPath env_small (new_ImageProcessor None) small_png)) = None"
    by (simp add: env_small_facts)
  have errs: "errors (validateImage env_small (Num 10485760) small_png) = [too_small_message]"
    by (simp add: validateImage_def Let_def env_small_facts js_def)
  from small_image_validation_only
         [OF env_small_facts(4) env_small_facts(5) h3 env_small_facts(1) h5 h6,
          of "Num 10485760" detector_small "Num 0.8"]
  show ?thesis by (simp add: env_small_facts out_small errs)
qed

section \<open>The report generator: the retry loop\<close>


lemma loop_stop:
  "\<not> k \<le> maxRetries g \<Longrightarrow> generateWithRetry_loop g env a k le = (Inl le, [])"
  by (subst generateWithRetry_loop.simps) simp

lemma loop_ok:
  "k \<le> maxRetries g \<Longrightarrow> attempt_outcome g env a k = Inr t \<Longrightarrow>
   generateWithRetry_loop g env a k le = (Inr t, [HttpPost k (attempt_prompt g env a k)])"
  by (subst generateWithRetry_loop.simps) (simp add: attempt_outcome_def attempt_prompt_def Let_def)

lemma loop_fail:
  "k \<le> maxRetries g \<Longrightarrow> attempt_outcome g env a k = Inl e \<Longrightarrow>
   generateWithRetry_loop g env a k le =
     (fst (generateWithRetry_loop g env a (Suc k) e),
      HttpPost k (attempt_prompt g env a k) # wait_after g k e
        @ snd (generateWithRetry_loop g env a (Suc k) e))"
  by (subst generateWithRetry_loop.simps)
     (simp add: attempt_outcome_def attempt_prompt_def Let_def wait_after_def split: prod.splits)






lemma loop_all_fail:
  "(\<forall>j. k \<le> j \<and> j \<le> maxRetries g \<longrightarrow> isl (attempt_outcome g env a j)) \<Longrightarrow>
   isl (fst (generateWithRetry_loop g env a k le))"
proof (induction "Suc (maxRetries g) - k" arbitrary: k le)
  case 0
  then show ?case by (simp add: loop_stop)
next
  case (Suc n)
  then have k: "k \<le> maxRetries g" by simp
  with Suc.prems obtain e where e: "attempt_outcome g env a k = Inl e"
    by (cases "attempt_outcome g env a k") auto
  have "isl (fst (generateWithRetry_loop g env a (Suc k) e))"
    using Suc.hyps(1) [of "Suc k" e] Suc.hyps(2) Suc.prems by simp
  with k e show ?case by (simp add: loop_fail)
qed

lemma generateReport_fallback:
  assumes "isInitialized_rg g" and "\<not> is_medgemma_4b_it g"
    and "no_valid_token g \<or> (\<forall>j. 1 \<le> j \<and> j \<le> maxRetries g \<longrightarrow> isl (attempt_outcome g env a j))"
  shows "fst (generateReport g env a)
           = Inr (Estructurado (generateFallbackReport a (report_date1 env) (report_date2 env)))"
proof (cases "no_valid_token g")
  case True
  with assms(1,2) show ?thesis by (simp add: generateReport_def)
next
  case False
  with assms(3) have "isl (fst (generateWithRetry g env a))"
    unfolding generateWithRetry_def by (intro loop_all_fail) simp
  then obtain e evs where "generateWithRetry g env a = (Inl e, evs)"
    by (cases "generateWithRetry g env a"; cases "fst (generateWithRetry g env a)") auto
  with assms(1,2) False show ?thesis by (simp add: generateReport_def)
qed


text \<open>Facts about the concrete generators and the service that is down.\<close>

lemma initialize_rg_sets_flag: "initialize_rg env g = g\<lparr> isInitialized_rg := True \<rparr>"
  by (simp add: initialize_rg_def split: sum.splits)

lemma g_rest_fields:
  "isInitialized_rg g_rest" "maxRetries g_rest = 3" "retryDelay g_rest = 2000"
  "\<not> is_medgemma_4b_it g_rest" "\<not> no_valid_token g_rest"
  by (simp_all add: g_rest_def initialize_rg_sets_flag new_ReportGenerator_def Let_def
      is_medgemma_4b_it_def no_valid_token_def toLowerCase_def lower_unit_def js_def)

lemma g_4b_fields:
  "isInitialized_rg g_4b" "is_medgemma_4b_it g_4b"
  by (simp_all add: g_4b_def initialize_rg_sets_flag new_ReportGenerator_def Let_def
      is_medgemma_4b_it_def toLowerCase_def lower_unit_def js_def)

lemma env_down_outcomes:
  "attempt_outcome g env_down a j =
     (if j = 2 then Inl (AxiosError None (js ''timeout of 30000ms exceeded''))
      else Inl (AxiosError (Some 503) (js ''Request failed with status code 503'')))"
  by (simp add: attempt_outcome_def env_down_def attempt_result_def)


lemma env_down_all_fail:
  "no_valid_token g_rest
   \<or> (\<forall>j. 1 \<le> j \<and> j \<le> maxRetries g_rest \<longrightarrow>
         isl (attempt_outcome g_rest env_down eligible_case j))"
  by (simp add: env_down_outcomes)

lemma env_down_dates: "report_date1 env_down = clock_a" "report_date2 env_down = clock_a"
  by (simp_all add: env_down_def)



section \<open>The report generator: fallback, disclaimer, determinism\<close>

text \<open>
  C3, as the claim states it, fails: with the model \<open>google/medgemma-4b-it\<close>, an initialized
  generator and the eligible case (\<open>Neumonia\<close> at 0.85, above a threshold of 0.8), the failure
  of the MedGemma script is thrown to the caller of \<open>generateReport\<close>; no fallback report is
  made.
\<close>

theorem generateReport_4b_it_raises:
  "isInitialized_rg g_4b
   \<and> diagnostico eligible_case = Neumonia
   \<and> js_ge (confianza eligible_case) (Num 0.8)
   \<and> fst (generateReport g_4b env_down eligible_case)
       = Inl (Error (js ''Error Python: RuntimeError: CUDA out of memory''))"
proof -
  have m: "medgemma4b env_down = (\<lambda>p i. ExitFailed (js ''RuntimeError: CUDA out of memory''))"
    by (simp add: env_down_def)
  have ip: "imagePath eligible_case = Some processed_jpeg" "processed_jpeg \<noteq> []"
    by (simp_all add: eligible_case_def processed_jpeg_def js_def)
  have "fst (generateReport g_4b env_down eligible_case)
       = Inl (Error (js ''Error Python: '' @ js ''RuntimeError: CUDA out of memory''))"
    by (simp add: generateReport_def g_4b_fields Let_def ip m)
  then show ?thesis by (simp add: g_4b_fields eligible_case_def js_def)
qed

text \<open>
  C3, amended. When the generator is initialized and its model is not
  \<open>google/medgemma-4b-it\<close>: if no valid token is configured, or every attempt of the remote
  generation fails, \<open>generateReport\<close> does not throw and returns the structured report of
  \<open>generateFallbackReport\<close>, which is marked as a demonstration report of the model
  \<open>Sistema RADOX Demo\<close>. This holds for every analysis, eligible or not.
\<close>

theorem generateReport_fallback_total:
  assumes "isInitialized_rg g" and "\<not> is_medgemma_4b_it g"
    and "no_valid_token g
         \<or> (\<forall>j. 1 \<le> j \<and> j \<le> maxRetries g \<longrightarrow> isl (attempt_outcome g env a j))"
  shows "fst (generateReport g env a)
           = Inr (Estructurado (generateFallbackReport a (report_date1 env) (report_date2 env)))
         \<and> tipoInforme (metadatos (generateFallbackReport a (report_date1 env) (report_date2 env)))
             = Some Demostracion
         \<and> modeloIA (metadatos (generateFallbackReport a (report_date1 env) (report_date2 env)))
             = js ''Sistema RADOX Demo''"
  using generateReport_fallback [OF assms]
  by (simp add: generateFallbackReport_def Let_def Demostracion_def)

text \<open>The run of the amended C3 on the service that is down.\<close>

theorem generateReport_fallback_total_witness:
  "isInitialized_rg g_rest \<and> \<not> is_medgemma_4b_it g_rest
   \<and> isl (attempt_outcome g_rest env_down eligible_case 1)
   \<and> isl (attempt_outcome g_rest env_down eligible_case 2)
   \<and> isl (attempt_outcome g_rest env_down eligible_case 3)
   \<and> maxRetries g_rest = 3
   \<and> fst (generateReport g_rest env_down eligible_case)
       = Inr (Estructurado (generateFallbackReport eligible_case clock_a clock_a))"
proof -
  from generateReport_fallback_total [OF g_rest_fields(1) g_rest_fields(4) env_down_all_fail]
  show ?thesis by (simp add: env_down_dates g_rest_fields env_down_outcomes)
qed

lemma g_4b_run:
  "fst (generateReport g_4b env_4b_ok eligible_case) = Inr (Texto script_text)"
proof -
  have m: "medgemma4b env_4b_ok = (\<lambda>p i. Exit0 (script_text @ [10]))"
    by (simp add: env_4b_ok_def)
  have ip: "imagePath eligible_case = Some processed_jpeg" "processed_jpeg \<noteq> []"
    by (simp_all add: eligible_case_def processed_jpeg_def js_def)
  have t: "trim (script_text @ [10]) = script_text"
    by (simp add: trim_def is_space_def script_text_def js_def)
  show ?thesis
    by (simp add: generateReport_def g_4b_fields Let_def ip m t)
qed

lemma raw_text_trimmed: "raw_text \<noteq> []" "trim raw_text \<noteq> []"
  by (simp_all add: raw_text_def trim_def is_space_def js_def)

lemma g_rest_run_up:
  "fst (generateReport g_rest env_up eligible_case)
     = Inr (Estructurado (processReport g_rest clock_a (trim raw_text) eligible_case))"
proof -
  have o: "attempt_outcome g_rest env_up eligible_case 1 = Inr (trim raw_text)"
    by (simp add: attempt_outcome_def env_up_def attempt_result_def raw_text_trimmed)
  have "generateWithRetry g_rest env_up eligible_case
          = (Inr (trim raw_text), [HttpPost 1 (attempt_prompt g_rest env_up eligible_case 1)])"
    unfolding generateWithRetry_def using loop_ok [OF _ o, of Undefined]
    by (simp add: g_rest_fields)
  moreover have "report_date1 env_up = clock_a"
    by (simp add: env_up_def env_down_def)
  ultimately show ?thesis
    by (simp add: generateReport_def g_rest_fields)
qed

text \<open>
  C4, as the claim states it, fails, in two ways. The disclaimer of a fallback report is not
  the disclaimer of a report assembled by \<open>processReport\<close>. And with the model
  \<open>google/medgemma-4b-it\<close>, \<open>generateReport\<close> returns the bare text the script printed, in
  which neither disclaimer occurs.
\<close>

theorem disclaimers_differ:
  "disclaimer (generateFallbackReport eligible_case clock_a clock_a)
     \<noteq> disclaimer (processReport g_rest clock_a raw_text eligible_case)
   \<and> fst (generateReport g_4b env_4b_ok eligible_case) = Inr (Texto script_text)
   \<and> \<not> sublist disclaimer_IA script_text
   \<and> \<not> sublist disclaimer_demo script_text"
proof -
  have "disclaimer (generateFallbackReport eligible_case clock_a clock_a)
     \<noteq> disclaimer (processReport g_rest clock_a raw_text eligible_case)"
    by (simp add: generateFallbackReport_def processReport_def Let_def disclaimer_demo_def
        disclaimer_IA_def js_def)
  moreover have "length script_text < length disclaimer_IA"
    "length script_text < length disclaimer_demo"
    by (simp_all add: script_text_def disclaimer_IA_def disclaimer_demo_def js_def)
  then have "\<not> sublist disclaimer_IA script_text" "\<not> sublist disclaimer_demo script_text"
    using sublist_length_le [of disclaimer_IA script_text]
      sublist_length_le [of disclaimer_demo script_text] by auto
  ultimately show ?thesis using g_4b_run by simp
qed

text \<open>
  C4, amended. A report assembled by \<open>processReport\<close> carries the fixed text
  \<open>disclaimer_IA\<close>, a report of \<open>generateFallbackReport\<close> carries the fixed text
  \<open>disclaimer_demo\<close>, and the two texts differ. When the model is not
  \<open>google/medgemma-4b-it\<close>, whatever \<open>generateReport\<close> returns is one of these two: the report
  \<open>processReport\<close> assembles from the text of the remote service, or the fallback report.
  When the model is \<open>google/medgemma-4b-it\<close>, what \<open>generateReport\<close> returns is no
  structured report: it is the trimmed output of the script and nothing else, so it carries
  no disclaimer unless the script printed one.
\<close>

theorem disclaimer_per_path:
  "disclaimer (processReport g date rawReport a) = disclaimer_IA
   \<and> disclaimer (generateFallbackReport a date1 date2) = disclaimer_demo
   \<and> disclaimer_IA \<noteq> disclaimer_demo
   \<and> (\<not> is_medgemma_4b_it g \<longrightarrow>
        (\<forall>r. fst (generateReport g env a) = Inr r \<longrightarrow>
           (\<exists>t. fst (generateWithRetry g env a) = Inr t
                \<and> r = Estructurado (processReport g (report_date1 env) t a))
           \<or> r = Estructurado
                   (generateFallbackReport a (report_date1 env) (report_date2 env))))
   \<and> (is_medgemma_4b_it g \<longrightarrow>
        (\<forall>r. fst (generateReport g env a) = Inr r \<longrightarrow>
           (\<exists>out. medgemma4b env
                      (buildMedicalPrompt g (prompt_date env 0) (diagnostico a) (confianza a))
                      (the (first_truthy [imagePath a, imagenPath a, image_path a]))
                    = Exit0 out
                  \<and> r = Texto (trim out))))"
proof -
  have 1: "disclaimer (processReport g date rawReport a) = disclaimer_IA"
    by (simp add: processReport_def)
  have 2: "disclaimer (generateFallbackReport a date1 date2) = disclaimer_demo"
    by (simp add: generateFallbackReport_def Let_def)
  have 3: "disclaimer_IA \<noteq> disclaimer_demo"
    by (simp add: disclaimer_IA_def disclaimer_demo_def js_def)
  have 4: "(\<exists>t. fst (generateWithRetry g env a) = Inr t
                \<and> r = Estructurado (processReport g (report_date1 env) t a))
           \<or> r = Estructurado (generateFallbackReport a (report_date1 env) (report_date2 env))"
    if "\<not> is_medgemma_4b_it g" and "fst (generateReport g env a) = Inr r" for r
    using that
    by (auto simp add: generateReport_def split: if_splits prod.splits sum.splits)
  have 5: "\<exists>out. medgemma4b env
                      (buildMedicalPrompt g (prompt_date env 0) (diagnostico a) (confianza a))
                      (the (first_truthy [imagePath a, imagenPath a, image_path a]))
                    = Exit0 out
                  \<and> r = Texto (trim out)"
    if "is_medgemma_4b_it g" and "fst (generateReport g env a) = Inr r" for r
    using that
    by (auto simp add: generateReport_def Let_def simp del: first_truthy.simps
        split: if_splits script_exit.splits)
  from 1 2 3 4 5 show ?thesis by blast
qed

text \<open>
  The runs of the amended C4: the remote service answers, the remote service is down, and
  the MedGemma script succeeds.
\<close>

theorem disclaimer_per_path_witness:
  "\<not> is_medgemma_4b_it g_rest
   \<and> fst (generateReport g_rest env_up eligible_case)
       = Inr (Estructurado (processReport g_rest clock_a (trim raw_text) eligible_case))
   \<and> disclaimer (processReport g_rest clock_a (trim raw_text) eligible_case) = disclaimer_IA
   \<and> fst (generateReport g_rest env_down eligible_case)
       = Inr (Estructurado (generateFallbackReport eligible_case clock_a clock_a))
   \<and> disclaimer (generateFallbackReport eligible_case clock_a clock_a) = disclaimer_demo
   \<and> is_medgemma_4b_it g_4b
   \<and> fst (generateReport g_4b env_4b_ok eligible_case) = Inr (Texto script_text)
   \<and> medgemma4b env_4b_ok
         (buildMedicalPrompt g_4b (prompt_date env_4b_ok 0) (diagnostico eligible_case)
            (confianza eligible_case))
         (the (first_truthy [imagePath eligible_case, imagenPath eligible_case,
                             image_path eligible_case]))
       = Exit0 (script_text @ [10])"
proof -
  have fb: "fst (generateReport g_rest env_down eligible_case)
     = Inr (Estructurado (generateFallbackReport eligible_case clock_a clock_a))"
    using generateReport_fallback [OF g_rest_fields(1) g_rest_fields(4) env_down_all_fail]
    by (simp add: env_down_dates)
  have m: "medgemma4b env_4b_ok = (\<lambda>p i. Exit0 (script_text @ [10]))"
    by (simp add: env_4b_ok_def)
  note up = disclaimer_per_path
              [of g_rest clock_a "trim raw_text" eligible_case clock_a clock_a env_up]
  note down = disclaimer_per_path
              [of g_rest clock_a raw_text eligible_case clock_a clock_a env_down]
  note script = disclaimer_per_path
              [of g_4b clock_a raw_text eligible_case clock_a clock_a env_4b_ok]
  from up have d1: "disclaimer (processReport g_rest clock_a (trim raw_text) eligible_case)
                      = disclaimer_IA"
    by blast
  from down have d2: "disclaimer (generateFallbackReport eligible_case clock_a clock_a)
                        = disclaimer_demo"
    by blast
  from script g_4b_fields(2) g_4b_run
  obtain out where "medgemma4b env_4b_ok
         (buildMedicalPrompt g_4b (prompt_date env_4b_ok 0) (diagnostico eligible_case)
            (confianza eligible_case))
         (the (first_truthy [imagePath eligible_case, imagenPath eligible_case,
                             image_path eligible_case]))
       = Exit0 out"
    by blast
  with m have d3: "medgemma4b env_4b_ok
         (buildMedicalPrompt g_4b (prompt_date env_4b_ok 0) (diagnostico eligible_case)
            (confianza eligible_case))
         (the (first_truthy [imagePath eligible_case, imagenPath eligible_case,
                             image_path eligible_case]))
       = Exit0 (script_text @ [10])"
    by simp
  from g_rest_fields(4) g_rest_run_up d1 fb d2 g_4b_fields(2) g_4b_run d3
  show ?thesis by (simp del: first_truthy.simps)
qed




section \<open>The report assembler\<close>

lemma occurs_ci_Nil: "occurs_ci pat [] \<longleftrightarrow> matches_ci pat []"
  by (simp add: occurs_ci_def)

lemma occurs_ci_Cons:
  "occurs_ci pat (c # cs) \<longleftrightarrow> matches_ci pat (c # cs) \<or> occurs_ci pat cs"
proof
  assume "occurs_ci pat (c # cs)"
  then obtain i where i: "i \<le> Suc (length cs)" "matches_ci pat (drop i (c # cs))"
    by (auto simp: occurs_ci_def)
  show "matches_ci pat (c # cs) \<or> occurs_ci pat cs"
  proof (cases i)
    case 0
    with i show ?thesis by simp
  next
    case (Suc k)
    with i have "k \<le> length cs" "matches_ci pat (drop k cs)" by simp_all
    then show ?thesis by (auto simp: occurs_ci_def)
  qed
next
  assume "matches_ci pat (c # cs) \<or> occurs_ci pat cs"
  then show "occurs_ci pat (c # cs)"
  proof
    assume "matches_ci pat (c # cs)"
    then have "matches_ci pat (drop 0 (c # cs))" by simp
    then show ?thesis unfolding occurs_ci_def by (intro bexI [of _ 0]) simp_all
  next
    assume "occurs_ci pat cs"
    then obtain k where "k \<le> length cs" "matches_ci pat (drop k cs)"
      by (auto simp: occurs_ci_def)
    then have "matches_ci pat (drop (Suc k) (c # cs))" "Suc k \<in> {0..length (c # cs)}" by simp_all
    then show ?thesis unfolding occurs_ci_def by blast
  qed
qed

lemma search_ci_None_iff: "search_ci pat s = None \<longleftrightarrow> \<not> occurs_ci pat s"
  by (induction s) (simp_all add: occurs_ci_Nil occurs_ci_Cons)

lemma search_ci_Some:
  "search_ci pat s = Some rest \<Longrightarrow> \<exists>pre. s = pre @ rest \<and> matches_ci pat rest"
proof (induction s)
  case Nil
  then show ?case by (auto split: if_splits)
next
  case (Cons c cs)
  show ?case
  proof (cases "matches_ci pat (c # cs)")
    case True
    with Cons.prems show ?thesis by auto
  next
    case False
    with Cons.prems have "search_ci pat cs = Some rest" by simp
    from Cons.IH [OF this] obtain pre where "cs = pre @ rest" "matches_ci pat rest" by blast
    then have "c # cs = (c # pre) @ rest \<and> matches_ci pat rest" by simp
    then show ?thesis by blast
  qed
qed

lemma matches_ci_length: "matches_ci pat s \<Longrightarrow> length pat \<le> length s"
  by (induction pat s rule: matches_ci.induct) simp_all

lemma matches_ci_take: "matches_ci pat s \<Longrightarrow> matches_ci pat (take (length pat) s @ t)"
  by (induction pat s rule: matches_ci.induct) simp_all

lemma lazy_until_lookahead_prefix:
  "\<exists>post. s = lazy_until_lookahead s @ post
          \<and> (post = [] \<or> matches_ci anchor_recomendaciones post \<or> matches_ci anchor_impresion post)"
proof (induction s)
  case Nil
  then show ?case by simp
next
  case (Cons c cs)
  then obtain post where post: "cs = lazy_until_lookahead cs @ post"
    "post = [] \<or> matches_ci anchor_recomendaciones post \<or> matches_ci anchor_impresion post"
    by blast
  show ?case
  proof (cases "matches_ci anchor_recomendaciones (c # cs) \<or> matches_ci anchor_impresion (c # cs)")
    case True
    then show ?thesis by auto
  next
    case False
    then have "c # cs = lazy_until_lookahead (c # cs) @ post" using post(1) by simp
    with post(2) show ?thesis by blast
  qed
qed

text \<open>
  C10. \<open>processReport\<close> carries the raw text through unchanged in \<open>informeCompleto\<close>. When
  the word \<open>hallazgos\<close> occurs nowhere in the raw text (in any case of letters), the field
  \<open>hallazgos\<close> is the fixed text \<open>default_findings\<close>; when \<open>recomendaciones\<close> occurs nowhere,
  the field \<open>recomendaciones\<close> is the fixed text \<open>default_recommendations\<close>. When the word
  occurs, the field is a stretch of the raw text that starts with the word, trimmed: for the
  findings it ends where \<open>recomendaciones\<close> or \<open>impresion\<close> follows or the text ends, for the
  recommendations it runs to the end of the text.
\<close>

theorem processReport_sections:
  "informeCompleto (processReport g date rawReport a) = rawReport
   \<and> (\<not> occurs_ci anchor_hallazgos rawReport \<longrightarrow>
        hallazgos (processReport g date rawReport a) = default_findings)
   \<and> (\<not> occurs_ci anchor_recomendaciones rawReport \<longrightarrow>
        recomendaciones (processReport g date rawReport a) = default_recommendations)
   \<and> (occurs_ci anchor_hallazgos rawReport \<longrightarrow>
        (\<exists>pre section post. rawReport = pre @ section @ post
           \<and> matches_ci anchor_hallazgos section
           \<and> (post = [] \<or> matches_ci anchor_recomendaciones post \<or> matches_ci anchor_impresion post)
           \<and> hallazgos (processReport g date rawReport a) = trim section))
   \<and> (occurs_ci anchor_recomendaciones rawReport \<longrightarrow>
        (\<exists>pre rest. rawReport = pre @ rest \<and> matches_ci anchor_recomendaciones rest
           \<and> recomendaciones (processReport g date rawReport a) = trim rest))"
proof -
  have 1: "informeCompleto (processReport g date rawReport a) = rawReport"
    by (simp add: processReport_def)
  have 2: "hallazgos (processReport g date rawReport a) = default_findings"
    if "\<not> occurs_ci anchor_hallazgos rawReport"
    using that search_ci_None_iff [of anchor_hallazgos rawReport]
    by (simp add: processReport_def extractFindings_def default_findings_def)
  have 3: "recomendaciones (processReport g date rawReport a) = default_recommendations"
    if "\<not> occurs_ci anchor_recomendaciones rawReport"
    using that search_ci_None_iff [of anchor_recomendaciones rawReport]
    by (simp add: processReport_def extractRecommendations_def default_recommendations_def)
  have 4: "\<exists>pre section post. rawReport = pre @ section @ post
           \<and> matches_ci anchor_hallazgos section
           \<and> (post = [] \<or> matches_ci anchor_recomendaciones post \<or> matches_ci anchor_impresion post)
           \<and> hallazgos (processReport g date rawReport a) = trim section"
    if "occurs_ci anchor_hallazgos rawReport"
  proof -
    from that obtain rest where rest: "search_ci anchor_hallazgos rawReport = Some rest"
      using search_ci_None_iff [of anchor_hallazgos rawReport] by auto
    from search_ci_Some [OF rest] obtain pre
      where pre: "rawReport = pre @ rest" "matches_ci anchor_hallazgos rest" by blast
    let ?n = "length anchor_hallazgos"
    from lazy_until_lookahead_prefix [of "drop ?n rest"] obtain post
      where post: "drop ?n rest = lazy_until_lookahead (drop ?n rest) @ post"
        "post = [] \<or> matches_ci anchor_recomendaciones post \<or> matches_ci anchor_impresion post"
      by blast
    let ?section = "take ?n rest @ lazy_until_lookahead (drop ?n rest)"
    have "rest = ?section @ post"
      using post(1) append_take_drop_id [of ?n rest] by (metis append.assoc)
    with pre(1) have "rawReport = pre @ ?section @ post" by simp
    moreover have "matches_ci anchor_hallazgos ?section"
      using pre(2) by (rule matches_ci_take)
    moreover have "hallazgos (processReport g date rawReport a) = trim ?section"
      using rest by (simp add: processReport_def extractFindings_def)
    ultimately show ?thesis using post(2) by blast
  qed
  have 5: "\<exists>pre rest. rawReport = pre @ rest \<and> matches_ci anchor_recomendaciones rest
           \<and> recomendaciones (processReport g date rawReport a) = trim rest"
    if "occurs_ci anchor_recomendaciones rawReport"
  proof -
    from that obtain rest where rest: "search_ci anchor_recomendaciones rawReport = Some rest"
      using search_ci_None_iff [of anchor_recomendaciones rawReport] by auto
    from search_ci_Some [OF rest] obtain pre
      where "rawReport = pre @ rest" "matches_ci anchor_recomendaciones rest" by blast
    moreover have "recomendaciones (processReport g date rawReport a) = trim rest"
      using rest by (simp add: processReport_def extractRecommendations_def)
    ultimately show ?thesis by blast
  qed
  from 1 2 3 4 5 show ?thesis by blast
qed

lemma raw_text_sections:
  "hallazgos (processReport g date raw_text a) = js ''HALLAZGOS: opacidad basal derecha.''"
  "recomendaciones (processReport g date raw_text a) = js ''Recomendaciones: control en 48 horas.''"
  by (simp_all add: processReport_def extractFindings_def extractRecommendations_def raw_text_def
      anchor_hallazgos_def anchor_recomendaciones_def anchor_impresion_def js_def trim_def is_space_def)

lemma plain_text_no_anchor:
  "\<not> occurs_ci anchor_hallazgos plain_text" "\<not> occurs_ci anchor_recomendaciones plain_text"
  unfolding search_ci_None_iff [symmetric]
  by (simp_all add: plain_text_def anchor_hallazgos_def anchor_recomendaciones_def js_def)

lemma raw_text_anchors:
  "occurs_ci anchor_hallazgos raw_text" "occurs_ci anchor_recomendaciones raw_text"
proof -
  have "search_ci anchor_hallazgos raw_text \<noteq> None" "search_ci anchor_recomendaciones raw_text \<noteq> None"
    by (simp_all add: raw_text_def anchor_hallazgos_def anchor_recomendaciones_def js_def)
  then show "occurs_ci anchor_hallazgos raw_text" "occurs_ci anchor_recomendaciones raw_text"
    by (simp_all add: search_ci_None_iff)
qed

text \<open>The run of C10 on a text without the words and on a text with the three headings.\<close>

theorem processReport_sections_witness:
  "\<not> occurs_ci anchor_hallazgos plain_text \<and> \<not> occurs_ci anchor_recomendaciones plain_text
   \<and> hallazgos (processReport g_rest clock_a plain_text eligible_case) = default_findings
   \<and> recomendaciones (processReport g_rest clock_a plain_text eligible_case) = default_recommendations
   \<and> informeCompleto (processReport g_rest clock_a plain_text eligible_case) = plain_text
   \<and> occurs_ci anchor_hallazgos raw_text \<and> occurs_ci anchor_recomendaciones raw_text
   \<and> hallazgos (processReport g_rest clock_a raw_text eligible_case)
       = js ''HALLAZGOS: opacidad basal derecha.''
   \<and> recomendaciones (processReport g_rest clock_a raw_text eligible_case)
       = js ''Recomendaciones: control en 48 horas.''
   \<and> informeCompleto (processReport g_rest clock_a raw_text eligible_case) = raw_text"
  using processReport_sections [of g_rest clock_a plain_text eligible_case]
    processReport_sections [of g_rest clock_a raw_text eligible_case]
    plain_text_no_anchor raw_text_anchors raw_text_sections [of g_rest clock_a eligible_case]
  by simp

end
